theory Spec2Isabelle
  imports Complex_Main
begin

section \<open>Python failures as values\<close>

text \<open>
  The two modules are Python over numpy. Every exception the modelled statements can raise
  is a constructor of \<open>error\<close>; a function that can raise returns \<open>error + 'a\<close>, with
  \<open>Inl\<close> for the exception. Numpy's floating-point and complex entries are modelled by
  \<open>real\<close> and \<open>complex\<close>; the properties below only use negation, conjugation, addition
  and comparison, and never depend on rounding.

  The file \<open>lassi_op.py\<close> does not parse as it stands (line 237 ends in a semicolon,
  line 248 has a misplaced parenthesis, line 278 lacks its colon). The model reads those
  three lines with the punctuation set right and follows Python everywhere else: in
  particular a name that is bound nowhere raises \<open>NameError\<close> and an attribute that is
  assigned nowhere raises \<open>AttributeError\<close>.
\<close>

datatype error =
    NameError string
  | AttributeError string
  | IndexError
  | ValueError
  | AxisError
  | TypeError
  | AssertionError "real option"

definition bind :: "error + 'a \<Rightarrow> ('a \<Rightarrow> error + 'b) \<Rightarrow> error + 'b" where
  "bind m f = (case m of Inl e \<Rightarrow> Inl e | Inr x \<Rightarrow> f x)"

section \<open>The functional predicate of \<open>_libxc.py\<close>\<close>

text \<open>
  \<open>hybrid_coeff\<close> and \<open>rsh_coeff\<close> are imported from the chemistry library; they are
  parameters here. Either may raise on a code it does not accept. The coefficients are
  binary floating-point numbers, each of them a real number; taking the absolute value
  and comparing are exact on them. The literal \<open>1e-10\<close> denotes the floating-point
  number nearest to \<open>10\<^sup>-\<^sup>1\<^sup>0\<close>, which is \<open>7737125245533627 / 2\<^sup>8\<^sup>6\<close> and lies
  above \<open>10\<^sup>-\<^sup>1\<^sup>0\<close>; that number is the threshold \<open>tol\<close>.
\<close>

definition tol :: real where
  "tol = 7737125245533627 / 2 ^ 86"

text \<open>
  \<^verbatim>\<open>
  def is_hybrid_or_rsh (xc_code):
      hyb = hybrid_coeff (xc_code)
      omega, alpha, beta = rsh_coeff (xc_code)
      non0 = [abs (x)>1e-10 for x in (hyb, omega)]
      return any (non0)
  \<close>
\<close>

definition is_hybrid_or_rsh ::
  "(string \<Rightarrow> error + real) \<Rightarrow> (string \<Rightarrow> error + real \<times> real \<times> real) \<Rightarrow> string \<Rightarrow> error + bool" where
  "is_hybrid_or_rsh hybrid_coeff rsh_coeff xc_code =
     bind (hybrid_coeff xc_code) (\<lambda>hyb.
     bind (rsh_coeff xc_code) (\<lambda>(omega, alpha, beta).
       let non0 = map (\<lambda>x. \<bar>x\<bar> > tol) [hyb, omega]
       in Inr (list_ex (\<lambda>b. b) non0)))"

section \<open>Arrays\<close>

text \<open>
  A numpy array is its shape and its entries, read at a multi-index. Only the entries at
  indices inside the shape mean anything. The operations below are the numpy calls the
  source makes, each with the failure numpy raises.
\<close>

record 'a ndarray =
  shape :: "nat list"
  item :: "nat list \<Rightarrow> 'a"

definition in_shape :: "nat list \<Rightarrow> nat list \<Rightarrow> bool" where
  "in_shape sh idx = list_all2 (\<lambda>i d. i < d) idx sh"

text \<open>\<open>A[i, j, ...]\<close> with one integer for every axis.\<close>

definition nd_get :: "'a ndarray \<Rightarrow> nat list \<Rightarrow> error + 'a" where
  "nd_get A idx = (if in_shape (shape A) idx then Inr (item A idx) else Inl IndexError)"

text \<open>\<open>A[i]\<close>, also written \<open>A[i,:,:]\<close>: the sub-array at position \<open>i\<close> of the first axis.\<close>

definition nd_sub :: "nat \<Rightarrow> 'a ndarray \<Rightarrow> error + 'a ndarray" where
  "nd_sub i A =
     (case shape A of
        [] \<Rightarrow> Inl IndexError
      | d # ds \<Rightarrow> if i < d then Inr \<lparr>shape = ds, item = \<lambda>idx. item A (i # idx)\<rparr>
                  else Inl IndexError)"

definition nd_map :: "('a \<Rightarrow> 'b) \<Rightarrow> 'a ndarray \<Rightarrow> 'b ndarray" where
  "nd_map f A = \<lparr>shape = shape A, item = \<lambda>idx. f (item A idx)\<rparr>"

definition insert_at :: "nat \<Rightarrow> nat \<Rightarrow> nat list \<Rightarrow> nat list" where
  "insert_at ax i idx = take ax idx @ i # drop ax idx"

text \<open>A reduction along one axis (\<open>sum\<close>, \<open>all\<close>, \<open>count_nonzero\<close> with \<open>axis=ax\<close>).\<close>

definition nd_reduce :: "('a list \<Rightarrow> 'b) \<Rightarrow> nat \<Rightarrow> 'a ndarray \<Rightarrow> error + 'b ndarray" where
  "nd_reduce g ax A =
     (if ax < length (shape A)
      then Inr \<lparr>shape = take ax (shape A) @ drop (Suc ax) (shape A),
                item = \<lambda>idx. g (map (\<lambda>i. item A (insert_at ax i idx)) [0..<shape A ! ax])\<rparr>
      else Inl AxisError)"

definition nd_sum :: "nat \<Rightarrow> int ndarray \<Rightarrow> error + int ndarray" where
  "nd_sum = nd_reduce sum_list"

definition nd_all :: "nat \<Rightarrow> bool ndarray \<Rightarrow> error + bool ndarray" where
  "nd_all = nd_reduce (list_all (\<lambda>b. b))"

definition nd_count_nonzero :: "nat \<Rightarrow> int ndarray \<Rightarrow> error + int ndarray" where
  "nd_count_nonzero = nd_reduce (\<lambda>xs. int (length (filter (\<lambda>x. x \<noteq> 0) xs)))"

definition pos :: "nat \<Rightarrow> nat list \<Rightarrow> nat" where
  "pos d axes = length (takeWhile (\<lambda>a. a \<noteq> d) axes)"

text \<open>
  \<open>A.transpose (axes)\<close>: axis \<open>i\<close> of the result is axis \<open>axes[i]\<close> of \<open>A\<close>. Numpy raises
  \<open>ValueError\<close> (axes don't match array) unless \<open>axes\<close> is a permutation of the axes of
  \<open>A\<close>.
\<close>

definition nd_transpose :: "nat list \<Rightarrow> 'a ndarray \<Rightarrow> error + 'a ndarray" where
  "nd_transpose axes A =
     (if sort axes = [0..<length (shape A)]
      then Inr \<lparr>shape = map (\<lambda>a. shape A ! a) axes,
                item = \<lambda>idx. item A (map (\<lambda>d. idx ! pos d axes) [0..<length axes])\<rparr>
      else Inl ValueError)"

text \<open>\<open>np.array\<close> of a rectangular three-level nested list.\<close>

definition np_array3 :: "'a list list list \<Rightarrow> 'a ndarray" where
  "np_array3 xs =
     \<lparr>shape = [length xs, length (hd xs), length (hd (hd xs))],
      item = \<lambda>idx. xs ! (idx ! 0) ! (idx ! 1) ! (idx ! 2)\<rparr>"

section \<open>The hopping classifier\<close>

text \<open>
  \<open>lst_hopping_index\<close>, lines 35 to 42. The calls into the solver objects on line 35
  give, for every fragment and every root, the pair of electron counts; \<open>nelec_frs\<close> is
  that nested list. The hopping index has shape \<open>(nfrags, 2, nroots, nroots)\<close> and
  entry \<open>[f,s,b,k]\<close> is the count of spin \<open>s\<close> in fragment \<open>f\<close> for root \<open>b\<close> minus that
  for root \<open>k\<close>.
  \<^verbatim>\<open>
  nelec_fsr = np.array ([[...]]).transpose (0,2,1)
  hopping_index = np.array ([[np.subtract.outer (spin, spin)
      for spin in frag] for frag in nelec_fsr])
  symm_index = np.all (hopping_index.sum (0) == 0, axis=0)
  zerop_index = symm_index & (np.count_nonzero (hopping_index, axis=(0,1)) == 0)
  onep_index = symm_index & (np.abs (hopping_index).sum ((0,1)) == 2)
  \<close>
\<close>

definition subtract_outer :: "int ndarray \<Rightarrow> error + int ndarray" where
  "subtract_outer n =
     (case shape n of
        [F, S, R] \<Rightarrow> Inr \<lparr>shape = [F, S, R, R],
                          item = \<lambda>idx. item n [idx ! 0, idx ! 1, idx ! 2]
                                      - item n [idx ! 0, idx ! 1, idx ! 3]\<rparr>
      | _ \<Rightarrow> Inl ValueError)"

definition symm_index :: "int ndarray \<Rightarrow> error + bool ndarray" where
  "symm_index hopping_index =
     bind (nd_sum 0 hopping_index) (\<lambda>tot. nd_all 0 (nd_map (\<lambda>x. x = 0) tot))"

definition nd_and :: "bool ndarray \<Rightarrow> bool ndarray \<Rightarrow> bool ndarray" where
  "nd_and A B = \<lparr>shape = shape A, item = \<lambda>idx. item A idx \<and> item B idx\<rparr>"

definition lst_hopping_index ::
  "int list list list \<Rightarrow> error + int ndarray \<times> bool ndarray \<times> bool ndarray" where
  "lst_hopping_index nelec_frs =
     bind (nd_transpose [0, 2, 1] (np_array3 nelec_frs)) (\<lambda>nelec_fsr.
     bind (subtract_outer nelec_fsr) (\<lambda>hopping_index.
     bind (symm_index hopping_index) (\<lambda>symm.
     bind (nd_count_nonzero 0 hopping_index) (\<lambda>c0.
     bind (nd_sum 0 c0) (\<lambda>cnt.
     bind (nd_sum 0 (nd_map abs hopping_index)) (\<lambda>a0.
     bind (nd_sum 0 a0) (\<lambda>tot.
       Inr (hopping_index,
            nd_and symm (nd_map (\<lambda>c. c = 0) cnt),
            nd_and symm (nd_map (\<lambda>t. t = 2) tot)))))))))"

text \<open>
  The classification of \<open>make_stdm12s\<close>, lines 244 to 249 (line 248 read as
  \<open>np.count_nonzero (hopping_index.sum (1), axis=0)\<close>).
  \<^verbatim>\<open>
  conserv_index = np.all (hopping_index.sum (1) == 0, axis=0)
  nsop_index = np.abs (hopping_index).sum (0) # 0,0 , 2,0 , 0,2 , 2,2 , 4,0 , 0,4
  nop_index = nsop_index.sum (0) # 0, 2, 4
  nfrag_index = np.count_nonzero (np.abs (hopping_index).sum (1), axis=0) # 0-4
  ncharge_index = np.count_nonzero (hopping_index).sum (1), axis=0 # = 0 for spin modes
  nspin_index = nsop_index[1,:,:] // 2
  \<close>
\<close>

record classes =
  conserv_index :: "bool ndarray"
  nsop_index :: "int ndarray"
  nop_index :: "int ndarray"
  nfrag_index :: "int ndarray"
  ncharge_index :: "int ndarray"
  nspin_index :: "int ndarray"

definition classify :: "int ndarray \<Rightarrow> error + classes" where
  "classify hopping_index =
     bind (nd_sum 1 hopping_index) (\<lambda>net.
     bind (nd_all 0 (nd_map (\<lambda>x. x = 0) net)) (\<lambda>conserv.
     bind (nd_sum 0 (nd_map abs hopping_index)) (\<lambda>nsop.
     bind (nd_sum 0 nsop) (\<lambda>nop.
     bind (nd_sum 1 (nd_map abs hopping_index)) (\<lambda>absnet.
     bind (nd_count_nonzero 0 absnet) (\<lambda>nfrag.
     bind (nd_count_nonzero 0 net) (\<lambda>ncharge.
     bind (if length (shape nsop) = 3 then nd_sub 1 nsop else Inl IndexError) (\<lambda>nsop1.
       Inr \<lparr>conserv_index = conserv, nsop_index = nsop, nop_index = nop,
            nfrag_index = nfrag, ncharge_index = ncharge,
            nspin_index = nd_map (\<lambda>x. x div 2) nsop1\<rparr>))))))))"

text \<open>
  What the specification calls the total absolute hop magnitude of a pair, over all
  fragments and both spins, and the total for one spin.
\<close>

definition spin_hop_magnitude :: "int ndarray \<Rightarrow> nat \<Rightarrow> nat \<Rightarrow> nat \<Rightarrow> int" where
  "spin_hop_magnitude hop s b k = (\<Sum>f \<leftarrow> [0..<hd (shape hop)]. \<bar>item hop [f, s, b, k]\<bar>)"

definition total_hop_magnitude :: "int ndarray \<Rightarrow> nat \<Rightarrow> nat \<Rightarrow> int" where
  "total_hop_magnitude hop b k =
     (\<Sum>f \<leftarrow> [0..<hd (shape hop)]. \<Sum>s \<leftarrow> [0..<2]. \<bar>item hop [f, s, b, k]\<bar>)"

section \<open>The dispatch of the second pass\<close>

text \<open>
  Lines 399 to 419. The cruncher a pair is sent to is a value of \<open>rule\<close>; \<open>Skip\<close> is a
  pair for which no cruncher runs.
  \<^verbatim>\<open>
  for bra, ket in combinations (range (nroots), 2):
      spin = nspin_index[bra,ket]
      if not conserv_index[bra,ket]:
          continue
      elif nop_index[bra,ket] == 0:
          _crunch_null (bra, ket)
      elif nop_index[bra,ket] == 2:
          _crunch_1e (bra, ket, spin)
      elif nop_idnex[bra,ket] == 4:
          if ncharge_index[bra,ket] == 0:
              assert (spin == 1)
              _crunch_spin_hop (bra, ket)
          elif nfrag_index[bra,ket] == 2:
              _crunch_pair_hop (bra, ket, spin)
          elif nfrag_index[bra,ket] == 3:
              if np.amin (hopping_index.sum (1)[:,bra,ket]) == -2:
                  _crunch_pair_split (bra, ket, spin)
              else:
                  _crunch_pair_split (ket, bra, spin)
          elif nfrag_index[bra,ket] == 4:
              _crunch_2e (bra, ket, spin)
  \<close>
  The name \<open>nop_idnex\<close> of line 407 is bound nowhere in the module, so evaluating it
  raises \<open>NameError\<close>.
\<close>

datatype rule =
    Skip
  | Crunch_null nat nat
  | Crunch_1e nat nat int
  | Crunch_spin_hop nat nat
  | Crunch_pair_hop nat nat int
  | Crunch_pair_split nat nat int
  | Crunch_2e nat nat int

definition nop_idnex :: "error + int ndarray" where
  "nop_idnex = Inl (NameError ''nop_idnex'')"

definition amin :: "int list \<Rightarrow> error + int" where
  "amin xs = (case xs of [] \<Rightarrow> Inl ValueError | x # ys \<Rightarrow> Inr (fold min ys x))"

text \<open>The branches under the test of line 407 (lines 408 to 419).\<close>

definition select_rule_4 :: "int ndarray \<Rightarrow> classes \<Rightarrow> nat \<Rightarrow> nat \<Rightarrow> int \<Rightarrow> error + rule" where
  "select_rule_4 hopping_index c bra ket spin =
     bind (nd_get (ncharge_index c) [bra, ket]) (\<lambda>ncharge.
       if ncharge = 0 then
         (if spin = 1 then Inr (Crunch_spin_hop bra ket) else Inl (AssertionError None))
       else
         bind (nd_get (nfrag_index c) [bra, ket]) (\<lambda>nfrag.
           if nfrag = 2 then Inr (Crunch_pair_hop bra ket spin)
           else if nfrag = 3 then
             bind (nd_sum 1 hopping_index) (\<lambda>net.
             bind (if length (shape net) = 3 \<and> bra < shape net ! 1 \<and> ket < shape net ! 2
                   then amin (map (\<lambda>f. item net [f, bra, ket]) [0..<hd (shape net)])
                   else Inl IndexError) (\<lambda>m.
               if m = - 2 then Inr (Crunch_pair_split bra ket spin)
               else Inr (Crunch_pair_split ket bra spin)))
           else if nfrag = 4 then Inr (Crunch_2e bra ket spin)
           else Inr Skip))"

definition select_rule :: "int ndarray \<Rightarrow> classes \<Rightarrow> nat \<Rightarrow> nat \<Rightarrow> error + rule" where
  "select_rule hopping_index c bra ket =
     bind (nd_get (nspin_index c) [bra, ket]) (\<lambda>spin.
     bind (nd_get (conserv_index c) [bra, ket]) (\<lambda>conserv.
       if \<not> conserv then Inr Skip
       else
         bind (nd_get (nop_index c) [bra, ket]) (\<lambda>nop.
           if nop = 0 then Inr (Crunch_null bra ket)
           else if nop = 2 then Inr (Crunch_1e bra ket spin)
           else
             bind nop_idnex (\<lambda>n.
             bind (nd_get n [bra, ket]) (\<lambda>nop'.
               if nop' = 4 then select_rule_4 hopping_index c bra ket spin
               else Inr Skip)))))"

text \<open>\<open>combinations (range (nroots), 2)\<close>: the pairs \<open>bra < ket\<close> in lexicographic order.\<close>

definition combinations2 :: "nat \<Rightarrow> (nat \<times> nat) list" where
  "combinations2 n = concat (map (\<lambda>i. map (\<lambda>j. (i, j)) [Suc i..<n]) [0..<n])"

text \<open>
  The loop itself: \<open>run\<close> stands for the crunchers applied to the output tensors, the
  state \<open>'t\<close>. The first failure ends the loop and the call.
\<close>

fun second_pass_loop ::
  "(rule \<Rightarrow> 't \<Rightarrow> error + 't) \<Rightarrow> int ndarray \<Rightarrow> classes \<Rightarrow> (nat \<times> nat) list \<Rightarrow> 't \<Rightarrow> error + 't" where
  "second_pass_loop run hopping_index c [] t = Inr t"
| "second_pass_loop run hopping_index c ((bra, ket) # ps) t =
     bind (select_rule hopping_index c bra ket) (\<lambda>r.
     bind (if r = Skip then Inr t else run r t) (\<lambda>t'.
       second_pass_loop run hopping_index c ps t'))"

definition second_pass ::
  "(rule \<Rightarrow> 't \<Rightarrow> error + 't) \<Rightarrow> int ndarray \<Rightarrow> classes \<Rightarrow> nat \<Rightarrow> 't \<Rightarrow> error + 't" where
  "second_pass run hopping_index c nroots t =
     second_pass_loop run hopping_index c (combinations2 nroots) t"

text \<open>
  The values the second pass reads for one pair: \<open>nop_index[bra,ket]\<close>,
  \<open>nspin_index[bra,ket]\<close>, \<open>conserv_index[bra,ket]\<close>, the entry of \<open>symm_index\<close> of
  the classifier, and the rule that lines 400 to 419 select.
\<close>

definition opCount :: "int ndarray \<Rightarrow> nat \<Rightarrow> nat \<Rightarrow> error + int" where
  "opCount hop bra ket = bind (classify hop) (\<lambda>c. nd_get (nop_index c) [bra, ket])"

definition spinChannel :: "int ndarray \<Rightarrow> nat \<Rightarrow> nat \<Rightarrow> error + int" where
  "spinChannel hop bra ket = bind (classify hop) (\<lambda>c. nd_get (nspin_index c) [bra, ket])"

definition conserving :: "int ndarray \<Rightarrow> nat \<Rightarrow> nat \<Rightarrow> error + bool" where
  "conserving hop bra ket = bind (symm_index hop) (\<lambda>s. nd_get s [bra, ket])"

definition conserv :: "int ndarray \<Rightarrow> nat \<Rightarrow> nat \<Rightarrow> error + bool" where
  "conserv hop bra ket = bind (classify hop) (\<lambda>c. nd_get (conserv_index c) [bra, ket])"

definition dispatch :: "int ndarray \<Rightarrow> nat \<Rightarrow> nat \<Rightarrow> error + rule" where
  "dispatch hop bra ket = bind (classify hop) (\<lambda>c. select_rule hop c bra ket)"

section \<open>Example hopping tensors\<close>

text \<open>
  Two roots each. \<open>hop_alpha_hop\<close>: one \<open>\<alpha>\<close> electron sits in fragment 0 in root 0 and in
  fragment 1 in root 1. \<open>hop_spin_flip\<close>: one fragment, holding one \<open>\<alpha>\<close> electron in
  root 0 and one \<open>\<beta>\<close> electron in root 1. \<open>hop_pair_ab\<close>: an \<open>\<alpha>\<beta>\<close> pair sits in fragment
  0 in root 0 and in fragment 1 in root 1. \<open>hop_double_flip\<close>: two \<open>\<alpha>\<close> electrons in
  fragment 0 and two \<open>\<beta>\<close> electrons in fragment 1 in root 0, the spins exchanged in
  root 1.
\<close>

definition np_array4 :: "'a list list list list \<Rightarrow> 'a ndarray" where
  "np_array4 xs =
     \<lparr>shape = [length xs, length (hd xs), length (hd (hd xs)), length (hd (hd (hd xs)))],
      item = \<lambda>idx. xs ! (idx ! 0) ! (idx ! 1) ! (idx ! 2) ! (idx ! 3)\<rparr>"

definition hop_alpha_hop :: "int ndarray" where
  "hop_alpha_hop = np_array4 [[[[0, 1], [-1, 0]], [[0, 0], [0, 0]]],
                              [[[0, -1], [1, 0]], [[0, 0], [0, 0]]]]"

definition hop_spin_flip :: "int ndarray" where
  "hop_spin_flip = np_array4 [[[[0, 1], [-1, 0]], [[0, -1], [1, 0]]]]"

definition hop_pair_ab :: "int ndarray" where
  "hop_pair_ab = np_array4 [[[[0, 1], [-1, 0]], [[0, 1], [-1, 0]]],
                            [[[0, -1], [1, 0]], [[0, -1], [1, 0]]]]"

definition hop_double_flip :: "int ndarray" where
  "hop_double_flip = np_array4 [[[[0, 2], [-2, 0]], [[0, -2], [2, 0]]],
                                [[[0, -2], [2, 0]], [[0, 2], [-2, 0]]]]"

text \<open>Two fragments whose electron counts are the same in both roots.\<close>

definition hop_null :: "int ndarray" where
  "hop_null = np_array4 [[[[0, 0], [0, 0]], [[0, 0], [0, 0]]],
                         [[[0, 0], [0, 0]], [[0, 0], [0, 0]]]]"

section \<open>The fragment intermediate store\<close>

text \<open>
  An object of class \<open>LSTDMint\<close> has exactly the attributes that \<open>__init__\<close> (lines 48
  to 62) assigns; no method assigns another. The tables \<open>_h\<close>, \<open>_hh\<close>, \<open>_phh\<close>, \<open>_sm\<close>,
  \<open>dm1\<close>, \<open>dm2\<close> are nested lists of \<open>nroots\<close> by \<open>nroots\<close> entries (two of them for
  \<open>_h\<close> and \<open>_phh\<close>, three for \<open>_hh\<close>), each entry \<open>None\<close> until it is set; they are
  functions of the indices here, and a read or write outside the lists is the
  \<open>IndexError\<close> of Python. The solver handles and link tables are of types \<open>'s\<close> and
  \<open>'l\<close>, the amplitude vectors of type \<open>'v\<close>.
\<close>

record ('s, 'l) LSTDMint =
  fcisolvers :: "'s list"
  linkstrl :: "'l list"
  linkstr :: "'l list"
  norb :: nat
  nelec :: "nat \<times> nat"
  nroots :: nat
  nelec_r :: "(nat \<times> nat) list"
  tab_h :: "nat \<Rightarrow> nat \<Rightarrow> nat \<Rightarrow> complex ndarray option"
  tab_hh :: "nat \<Rightarrow> nat \<Rightarrow> nat \<Rightarrow> complex ndarray option"
  tab_phh :: "nat \<Rightarrow> nat \<Rightarrow> nat \<Rightarrow> complex ndarray option"
  tab_sm :: "nat \<Rightarrow> nat \<Rightarrow> complex ndarray option"
  dm1 :: "nat \<Rightarrow> nat \<Rightarrow> complex ndarray option"
  dm2 :: "nat \<Rightarrow> nat \<Rightarrow> complex ndarray option"

definition nd_conj :: "complex ndarray \<Rightarrow> complex ndarray" where
  "nd_conj A = nd_map cnj A"

text \<open>\<open>A.T\<close> reverses the axes.\<close>

definition nd_T :: "'a ndarray \<Rightarrow> 'a ndarray" where
  "nd_T A = \<lparr>shape = rev (shape A), item = \<lambda>idx. item A (rev idx)\<rparr>"

text \<open>A method called on an entry that is still \<open>None\<close> raises \<open>AttributeError\<close>.\<close>

definition on_array ::
  "string \<Rightarrow> (complex ndarray \<Rightarrow> error + 'b) \<Rightarrow> complex ndarray option \<Rightarrow> error + 'b" where
  "on_array name f v = (case v of None \<Rightarrow> Inl (AttributeError name) | Some a \<Rightarrow> f a)"

definition read3 ::
  "nat \<Rightarrow> nat \<Rightarrow> (nat \<Rightarrow> nat \<Rightarrow> nat \<Rightarrow> 'a) \<Rightarrow> nat \<Rightarrow> nat \<Rightarrow> nat \<Rightarrow> error + 'a" where
  "read3 S R T s i j = (if s < S \<and> i < R \<and> j < R then Inr (T s i j) else Inl IndexError)"

definition read2 :: "nat \<Rightarrow> (nat \<Rightarrow> nat \<Rightarrow> 'a) \<Rightarrow> nat \<Rightarrow> nat \<Rightarrow> error + 'a" where
  "read2 R T i j = (if i < R \<and> j < R then Inr (T i j) else Inl IndexError)"

definition write3 ::
  "nat \<Rightarrow> nat \<Rightarrow> (nat \<Rightarrow> nat \<Rightarrow> nat \<Rightarrow> 'a) \<Rightarrow> nat \<Rightarrow> nat \<Rightarrow> nat \<Rightarrow> 'a
     \<Rightarrow> error + (nat \<Rightarrow> nat \<Rightarrow> nat \<Rightarrow> 'a)" where
  "write3 S R T s i j x =
     (if s < S \<and> i < R \<and> j < R
      then Inr (\<lambda>s' i' j'. if s' = s \<and> i' = i \<and> j' = j then x else T s' i' j')
      else Inl IndexError)"

definition write2 ::
  "nat \<Rightarrow> (nat \<Rightarrow> nat \<Rightarrow> 'a) \<Rightarrow> nat \<Rightarrow> nat \<Rightarrow> 'a \<Rightarrow> error + (nat \<Rightarrow> nat \<Rightarrow> 'a)" where
  "write2 R T i j x =
     (if i < R \<and> j < R
      then Inr (\<lambda>i' j'. if i' = i \<and> j' = j then x else T i' j')
      else Inl IndexError)"

text \<open>
  The accessors, lines 66 to 134. A getter returns the value it reads; a setter returns
  the store it leaves (the value a setter also returns is its argument).
  \<^verbatim>\<open>
  def get_h (self, i, j, s):   return self._h[s][i][j]
  def set_h (self, i, j, s, x): self._h[s][i][j] = x
  def get_p (self, i, j, s):   return self._h[s][j][i].conj ()
  def get_pp (self, i, j, s):  return self._hh[s][j][i].conj ().T
  def get_pph (self, i, j, s): return self._phh[s][j][i].conj ().transpose (0,2,1)
  def get_sp (self, i, j):     return self._sm[j][i].conj ()
  def get_dm1 (self, i, j):
      k, l = max (i, j), min (i, j)
      return self.dm1[k][l]
  def set_dm1 (self, i, j, x):
      if j > i:
          self.dm1[j][i] = x.conj ().transpose (0, 2, 1)
      else:
          self.dm1[i][j] = x
  \<close>
\<close>

definition get_h :: "('s, 'l) LSTDMint \<Rightarrow> nat \<Rightarrow> nat \<Rightarrow> nat \<Rightarrow> error + complex ndarray option" where
  "get_h self i j s = read3 2 (nroots self) (tab_h self) s i j"

definition set_h ::
  "('s, 'l) LSTDMint \<Rightarrow> nat \<Rightarrow> nat \<Rightarrow> nat \<Rightarrow> complex ndarray \<Rightarrow> error + ('s, 'l) LSTDMint" where
  "set_h self i j s x =
     bind (write3 2 (nroots self) (tab_h self) s i j (Some x)) (\<lambda>T. Inr (self\<lparr>tab_h := T\<rparr>))"

definition get_p :: "('s, 'l) LSTDMint \<Rightarrow> nat \<Rightarrow> nat \<Rightarrow> nat \<Rightarrow> error + complex ndarray" where
  "get_p self i j s =
     bind (read3 2 (nroots self) (tab_h self) s j i) (on_array ''conj'' (\<lambda>a. Inr (nd_conj a)))"

definition get_hh :: "('s, 'l) LSTDMint \<Rightarrow> nat \<Rightarrow> nat \<Rightarrow> nat \<Rightarrow> error + complex ndarray option" where
  "get_hh self i j s = read3 3 (nroots self) (tab_hh self) s i j"

definition set_hh ::
  "('s, 'l) LSTDMint \<Rightarrow> nat \<Rightarrow> nat \<Rightarrow> nat \<Rightarrow> complex ndarray \<Rightarrow> error + ('s, 'l) LSTDMint" where
  "set_hh self i j s x =
     bind (write3 3 (nroots self) (tab_hh self) s i j (Some x)) (\<lambda>T. Inr (self\<lparr>tab_hh := T\<rparr>))"

definition get_pp :: "('s, 'l) LSTDMint \<Rightarrow> nat \<Rightarrow> nat \<Rightarrow> nat \<Rightarrow> error + complex ndarray" where
  "get_pp self i j s =
     bind (read3 3 (nroots self) (tab_hh self) s j i)
       (on_array ''conj'' (\<lambda>a. Inr (nd_T (nd_conj a))))"

definition get_phh :: "('s, 'l) LSTDMint \<Rightarrow> nat \<Rightarrow> nat \<Rightarrow> nat \<Rightarrow> error + complex ndarray option" where
  "get_phh self i j s = read3 2 (nroots self) (tab_phh self) s i j"

definition set_phh ::
  "('s, 'l) LSTDMint \<Rightarrow> nat \<Rightarrow> nat \<Rightarrow> nat \<Rightarrow> complex ndarray \<Rightarrow> error + ('s, 'l) LSTDMint" where
  "set_phh self i j s x =
     bind (write3 2 (nroots self) (tab_phh self) s i j (Some x)) (\<lambda>T. Inr (self\<lparr>tab_phh := T\<rparr>))"

definition get_pph :: "('s, 'l) LSTDMint \<Rightarrow> nat \<Rightarrow> nat \<Rightarrow> nat \<Rightarrow> error + complex ndarray" where
  "get_pph self i j s =
     bind (read3 2 (nroots self) (tab_phh self) s j i)
       (on_array ''conj'' (\<lambda>a. nd_transpose [0, 2, 1] (nd_conj a)))"

definition get_sm :: "('s, 'l) LSTDMint \<Rightarrow> nat \<Rightarrow> nat \<Rightarrow> error + complex ndarray option" where
  "get_sm self i j = read2 (nroots self) (tab_sm self) i j"

definition set_sm ::
  "('s, 'l) LSTDMint \<Rightarrow> nat \<Rightarrow> nat \<Rightarrow> complex ndarray \<Rightarrow> error + ('s, 'l) LSTDMint" where
  "set_sm self i j x =
     bind (write2 (nroots self) (tab_sm self) i j (Some x)) (\<lambda>T. Inr (self\<lparr>tab_sm := T\<rparr>))"

definition get_sp :: "('s, 'l) LSTDMint \<Rightarrow> nat \<Rightarrow> nat \<Rightarrow> error + complex ndarray" where
  "get_sp self i j =
     bind (read2 (nroots self) (tab_sm self) j i) (on_array ''conj'' (\<lambda>a. Inr (nd_conj a)))"

definition get_dm1 :: "('s, 'l) LSTDMint \<Rightarrow> nat \<Rightarrow> nat \<Rightarrow> error + complex ndarray option" where
  "get_dm1 self i j = (let k = max i j; l = min i j in read2 (nroots self) (dm1 self) k l)"

definition set_dm1 ::
  "('s, 'l) LSTDMint \<Rightarrow> nat \<Rightarrow> nat \<Rightarrow> complex ndarray \<Rightarrow> error + ('s, 'l) LSTDMint" where
  "set_dm1 self i j x =
     (if j > i then
        bind (nd_transpose [0, 2, 1] (nd_conj x)) (\<lambda>y.
        bind (write2 (nroots self) (dm1 self) j i (Some y)) (\<lambda>T. Inr (self\<lparr>dm1 := T\<rparr>)))
      else
        bind (write2 (nroots self) (dm1 self) i j (Some x)) (\<lambda>T. Inr (self\<lparr>dm1 := T\<rparr>)))"

definition get_dm2 :: "('s, 'l) LSTDMint \<Rightarrow> nat \<Rightarrow> nat \<Rightarrow> error + complex ndarray option" where
  "get_dm2 self i j = (let k = max i j; l = min i j in read2 (nroots self) (dm2 self) k l)"

definition set_dm2 ::
  "('s, 'l) LSTDMint \<Rightarrow> nat \<Rightarrow> nat \<Rightarrow> complex ndarray \<Rightarrow> error + ('s, 'l) LSTDMint" where
  "set_dm2 self i j x =
     (if j > i then
        bind (nd_transpose [0, 2, 1, 4, 3] (nd_conj x)) (\<lambda>y.
        bind (write2 (nroots self) (dm2 self) j i (Some y)) (\<lambda>T. Inr (self\<lparr>dm2 := T\<rparr>)))
      else
        bind (write2 (nroots self) (dm2 self) i j (Some x)) (\<lambda>T. Inr (self\<lparr>dm2 := T\<rparr>)))"

text \<open>
  \<open>self.ci\<close>: no statement of the class assigns an attribute \<open>ci\<close>, so the read raises
  \<open>AttributeError\<close> on every object.
\<close>

definition self_ci :: "('s, 'l) LSTDMint \<Rightarrow> error + 'v list" where
  "self_ci self = Inl (AttributeError ''ci'')"

section \<open>The intermediate builder\<close>

definition nth_err :: "'a list \<Rightarrow> nat \<Rightarrow> error + 'a" where
  "nth_err xs i = (if i < length xs then Inr (xs ! i) else Inl IndexError)"

fun for_each :: "('a \<Rightarrow> 't \<Rightarrow> error + 't) \<Rightarrow> 'a list \<Rightarrow> 't \<Rightarrow> error + 't" where
  "for_each body [] t = Inr t"
| "for_each body (x # xs) t = bind (body x t) (for_each body xs)"

text \<open>
  \<open>LSTDMint.kernel\<close>, lines 136 to 220; \<open>hopping_index\<close> is the hopping index of this
  fragment, of shape \<open>(2, nroots, nroots)\<close> (line 239 passes \<open>hopping_index[ifrag]\<close>). The
  model is for that rank; for another rank it returns \<open>IndexError\<close>, which is what numpy
  does for a smaller one. The two clock reads are observational and not modelled.

  The spectator mask and its pairs, lines 141 to 143:
  \<^verbatim>\<open>
  spectator_index = np.all (hopping_index == 0, axis=0)
  spectator_index[np.triu_indices (self.nroots, k=1)] = False
  spectator_index = np.stack (np.where (spectator_index), axis=0)
  \<close>
  \<open>np.where\<close> gives the row indices and the column indices of the true entries, in
  row-major order, and \<open>np.stack (..., axis=0)\<close> makes them the two rows of an array.
\<close>

definition spectator_mask :: "int ndarray \<Rightarrow> nat \<Rightarrow> error + bool ndarray" where
  "spectator_mask hopping_index n =
     bind (nd_all 0 (nd_map (\<lambda>x. x = 0) hopping_index)) (\<lambda>m.
       if length (shape m) = 2 \<and> (2 \<le> n \<longrightarrow> n - 1 \<le> shape m ! 0 \<and> n \<le> shape m ! 1)
       then Inr \<lparr>shape = shape m,
                 item = \<lambda>idx. if idx ! 0 < idx ! 1 \<and> idx ! 1 < n then False else item m idx\<rparr>
       else Inl IndexError)"

definition where2 :: "bool ndarray \<Rightarrow> (nat \<times> nat) list" where
  "where2 m = filter (\<lambda>(i, j). item m [i, j])
                (concat (map (\<lambda>i. map (\<lambda>j. (i, j)) [0..<shape m ! 1]) [0..<shape m ! 0]))"

definition stack_rows :: "(nat \<times> nat) list \<Rightarrow> nat list list" where
  "stack_rows ps = [map fst ps, map snd ps]"

definition spectator_index :: "int ndarray \<Rightarrow> nat \<Rightarrow> error + nat list list" where
  "spectator_index hopping_index n =
     bind (spectator_mask hopping_index n) (\<lambda>m. Inr (stack_rows (where2 m)))"

text \<open>
  The loop over it, lines 144 to 150. \<open>for i, j in spectator_index\<close> takes the rows of
  the stacked array one after the other and unpacks each into \<open>i, j\<close>, which raises
  \<open>ValueError\<close> unless the row has two entries. The solver's \<open>trans_rdm12s\<close> is the
  parameter of that name.
  \<^verbatim>\<open>
  for i, j in spectator_index:
      solver = self.fcisolvers[i]
      linkstr = self.linkstr[i]
      nelec = self.nelec_r[i]
      dm1s, dm2s = solver.trans_rdm12s (ci[i], ci[j], norb, nelec, link_index=linkstr)
      self.set_dm1 (i, j, dm1s)
      if zerop_index[i,j]: self.set_dm2 (i, j, dm2s)
  \<close>
\<close>

definition unpack2 :: "'a list \<Rightarrow> error + 'a \<times> 'a" where
  "unpack2 xs = (case xs of [a, b] \<Rightarrow> Inr (a, b) | _ \<Rightarrow> Inl ValueError)"

definition spectator_body ::
  "('s \<Rightarrow> 'v \<Rightarrow> 'v \<Rightarrow> nat \<Rightarrow> nat \<times> nat \<Rightarrow> 'l \<Rightarrow> error + complex ndarray \<times> complex ndarray)
     \<Rightarrow> 'v list \<Rightarrow> bool ndarray \<Rightarrow> nat \<Rightarrow> nat \<Rightarrow> ('s, 'l) LSTDMint \<Rightarrow> error + ('s, 'l) LSTDMint" where
  "spectator_body trans_rdm12s ci zerop_index i j self =
     bind (nth_err (fcisolvers self) i) (\<lambda>solver.
     bind (nth_err (linkstr self) i) (\<lambda>lstr.
     bind (nth_err (nelec_r self) i) (\<lambda>ne.
     bind (nth_err ci i) (\<lambda>ci_i.
     bind (nth_err ci j) (\<lambda>ci_j.
     bind (trans_rdm12s solver ci_i ci_j (norb self) ne lstr) (\<lambda>(dm1s, dm2s).
     bind (set_dm1 self i j dm1s) (\<lambda>self'.
     bind (nd_get zerop_index [i, j]) (\<lambda>z.
       if z then set_dm2 self' i j dm2s else Inr self'))))))))"

text \<open>
  The kets an electron of spin \<open>s\<close> leaves, lines 153 and 154:
  \<^verbatim>\<open>
  hidx_ket_a = np.where (np.any (hopping_index[0] < 0, axis=0))[0]
  hidx_ket_b = np.where (np.any (hopping_index[1] < 0, axis=0))[0]
  \<close>
\<close>

definition hidx_ket :: "int ndarray \<Rightarrow> nat \<Rightarrow> error + nat list" where
  "hidx_ket hopping_index s =
     bind (nd_sub s hopping_index) (\<lambda>h.
     bind (nd_reduce (list_ex (\<lambda>b. b)) 0 (nd_map (\<lambda>x. x < 0) h)) (\<lambda>a.
       if length (shape a) = 1 then Inr (filter (\<lambda>k. item a [k]) [0..<shape a ! 0])
       else Inl IndexError))"

text \<open>
  The three loops over those kets, lines 155 to 218.

  Line 157, \<open>np.any (np.all (hopping_index[:,:,ket] == [1,-1]), axis=1)\<close>: the inner
  \<open>np.all\<close> has no axis and gives one boolean, and \<open>np.any\<close> of it along axis 1 raises
  \<open>AxisError\<close>; so the first ket of \<open>hidx_ket_b\<close> ends the call. (Where the comparison
  of the two shapes itself raises, that failure comes first; line 157 fails either way.)

  Lines 163 and 197 build \<open>np.stack ([des_a (self.ci[ket], ...) for p in range (norb)])\<close>:
  for the first \<open>p\<close> the argument \<open>self.ci\<close> is read and raises; with no orbital the list is
  empty and \<open>np.stack\<close> raises \<open>ValueError\<close>. The statements that follow in the two loop
  bodies (lines 164 to 192 and 199 to 218) are the parameters \<open>alpha_rest\<close> and
  \<open>beta_rest\<close>: they take the amplitude vectors that \<open>self.ci\<close> would have given.
\<close>

definition bpvec_ket :: "nat \<Rightarrow> 't \<Rightarrow> error + 't" where
  "bpvec_ket ket bpvec_list = Inl AxisError"

definition ket_body ::
  "('v list \<Rightarrow> nat \<Rightarrow> nat \<times> nat \<Rightarrow> ('s, 'l) LSTDMint \<Rightarrow> error + ('s, 'l) LSTDMint)
     \<Rightarrow> nat \<Rightarrow> ('s, 'l) LSTDMint \<Rightarrow> error + ('s, 'l) LSTDMint" where
  "ket_body rest ket self =
     bind (nth_err (nelec_r self) ket) (\<lambda>ne.
       if norb self = 0 then Inl ValueError
       else bind (self_ci self) (\<lambda>ci. rest ci ket ne self))"

definition kernel ::
  "('s \<Rightarrow> 'v \<Rightarrow> 'v \<Rightarrow> nat \<Rightarrow> nat \<times> nat \<Rightarrow> 'l \<Rightarrow> error + complex ndarray \<times> complex ndarray)
     \<Rightarrow> ('v list \<Rightarrow> nat \<Rightarrow> nat \<times> nat \<Rightarrow> ('s, 'l) LSTDMint \<Rightarrow> error + ('s, 'l) LSTDMint)
     \<Rightarrow> ('v list \<Rightarrow> nat \<Rightarrow> nat \<times> nat \<Rightarrow> ('s, 'l) LSTDMint \<Rightarrow> error + ('s, 'l) LSTDMint)
     \<Rightarrow> ('s, 'l) LSTDMint \<Rightarrow> 'v list \<Rightarrow> int ndarray \<Rightarrow> bool ndarray \<Rightarrow> bool ndarray
     \<Rightarrow> error + ('s, 'l) LSTDMint" where
  "kernel trans_rdm12s alpha_rest beta_rest self ci hopping_index zerop_index onep_index =
     bind (spectator_index hopping_index (nroots self)) (\<lambda>rows.
     bind (for_each (\<lambda>row s. bind (unpack2 row) (\<lambda>(i, j).
             spectator_body trans_rdm12s ci zerop_index i j s)) rows self) (\<lambda>self1.
     bind (hidx_ket hopping_index 0) (\<lambda>hidx_ket_a.
     bind (hidx_ket hopping_index 1) (\<lambda>hidx_ket_b.
     bind (for_each bpvec_ket hidx_ket_b (replicate (nroots self) (None :: 'v option))) (\<lambda>bpvec_list.
     bind (for_each (ket_body alpha_rest) hidx_ket_a self1) (\<lambda>self2.
       for_each (ket_body beta_rest) hidx_ket_b self2))))))"

text \<open>
  The same-spin two-operator amplitude, lines 187 to 191 (and 213 to 217 for \<open>\<beta>\<close>);
  \<open>amp q p\<close> is the inner product computed for the orbital pair \<open>q < p\<close>.
  \<open>np.triu_indices (norb, k=1)\<close> lists the entries above the diagonal in row-major
  order, the order of \<open>combinations (range (norb), 2)\<close>.
  \<^verbatim>\<open>
  hh_triu = [bravec.dot (des_a (apket[p], norb, nelec, q).ravel ())
      for q, p in combinations (range (norb), 2)]
  hh = np.zeros ((norb, norb), dtype = apket.dtype)
  hh[np.triu_indices (norb, k=1)] = hh_triu
  hh -= hh.T
  \<close>
\<close>

definition same_spin_hh :: "nat \<Rightarrow> (nat \<Rightarrow> nat \<Rightarrow> complex) \<Rightarrow> complex ndarray" where
  "same_spin_hh n amp =
     (let hh_triu = map (\<lambda>(q, p). amp q p) (combinations2 n);
          filled = map_of (zip (combinations2 n) hh_triu);
          hh = \<lparr>shape = [n, n],
                item = \<lambda>idx. case filled (idx ! 0, idx ! 1) of Some v \<Rightarrow> v | None \<Rightarrow> 0\<rparr>
      in \<lparr>shape = [n, n], item = \<lambda>idx. item hh idx - item (nd_T hh) idx\<rparr>)"

section \<open>Elementwise arithmetic with broadcasting\<close>

text \<open>
  Numpy aligns two shapes at their last axes; two extents are compatible when they are
  equal or one of them is 1, and a missing leading axis counts as 1. \<open>bshape\<close> works on
  the reversed shapes. An entry of the result at \<open>idx\<close> reads each operand at \<open>bidx\<close>.
\<close>

fun bshape :: "nat list \<Rightarrow> nat list \<Rightarrow> nat list option" where
  "bshape [] ys = Some ys"
| "bshape xs [] = Some xs"
| "bshape (x # xs) (y # ys) =
     (if x = y \<or> y = 1 then map_option ((#) x) (bshape xs ys)
      else if x = 1 then map_option ((#) y) (bshape xs ys)
      else None)"

definition broadcast_shapes :: "nat list \<Rightarrow> nat list \<Rightarrow> nat list option" where
  "broadcast_shapes s1 s2 = map_option rev (bshape (rev s1) (rev s2))"

definition bidx :: "nat list \<Rightarrow> nat list \<Rightarrow> nat list" where
  "bidx sh idx = map2 (\<lambda>d i. if d = 1 then 0 else i) sh (drop (length idx - length sh) idx)"

definition nd_add :: "complex ndarray \<Rightarrow> complex ndarray \<Rightarrow> error + complex ndarray" where
  "nd_add A B =
     (case broadcast_shapes (shape A) (shape B) of
        None \<Rightarrow> Inl ValueError
      | Some sh \<Rightarrow> Inr \<lparr>shape = sh,
                        item = \<lambda>idx. item A (bidx (shape A) idx) + item B (bidx (shape B) idx)\<rparr>)"

text \<open>\<open>A += B\<close>: the sum must have the shape of \<open>A\<close>.\<close>

definition nd_iadd :: "complex ndarray \<Rightarrow> complex ndarray \<Rightarrow> error + complex ndarray" where
  "nd_iadd A B =
     bind (nd_add A B) (\<lambda>S. if shape S = shape A then Inr S else Inl ValueError)"

fun indices :: "nat list \<Rightarrow> nat list list" where
  "indices [] = [[]]"
| "indices (d # ds) = concat (map (\<lambda>i. map ((#) i) (indices ds)) [0..<d])"

section \<open>The antisymmetry assertions of the pair-hop rule\<close>

text \<open>
  Lines 333 to 336 of \<open>_crunch_pair_hop\<close>; \<open>inti\<close> and \<open>intj\<close> are the stores of the two
  fragments that lines 329 and 330 find.
  \<^verbatim>\<open>
  pp = ints[i].get_pp (bra, ket, s2lt)
  if s2lt == 1: assert (np.all (np.abs (pp + pp.T)) < 1e-8), '{}'.format (np.amax (np.abs (pp + pp.T)))
  hh = ints[j].get_hh (bra, ket, s2lt)
  if s2lt == 1: assert (np.all (np.abs (hh + hh.T)) < 1e-8), '{}'.format (np.amax (np.abs (hh + hh.T)))
  \<close>
  \<open>np.all\<close> of an array is true when no entry is zero; as a number it is 1 or 0, and
  that number is what the assertion compares with \<open>1e-8\<close> (the floating-point number
  \<open>3022314549036573 / 2\<^sup>7\<^sup>8\<close>, \<open>tol8\<close>). The message of a failed assertion is the
  largest entry of the array of absolute values.
\<close>

definition tol8 :: real where
  "tol8 = 3022314549036573 / 2 ^ 78"

definition amax_real :: "real list \<Rightarrow> error + real" where
  "amax_real xs = (case xs of [] \<Rightarrow> Inl ValueError | x # ys \<Rightarrow> Inr (fold max ys x))"

definition assert_antisym :: "nat \<Rightarrow> complex ndarray \<Rightarrow> error + unit" where
  "assert_antisym s2lt M =
     (if s2lt = 1 then
        bind (nd_add M (nd_T M)) (\<lambda>S.
          let absS = map (\<lambda>idx. cmod (item S idx)) (indices (shape S));
              np_all = (if list_all (\<lambda>a. a \<noteq> 0) absS then 1 else 0 :: real)
          in if np_all < tol8 then Inr ()
             else bind (amax_real absS) (\<lambda>m. Inl (AssertionError (Some m))))
      else Inr ())"

definition crunch_pair_hop_amplitudes ::
  "('s, 'l) LSTDMint \<Rightarrow> ('s, 'l) LSTDMint \<Rightarrow> nat \<Rightarrow> nat \<Rightarrow> nat
     \<Rightarrow> error + complex ndarray \<times> complex ndarray option" where
  "crunch_pair_hop_amplitudes inti intj bra ket s2lt =
     bind (get_pp inti bra ket s2lt) (\<lambda>pp.
     bind (assert_antisym s2lt pp) (\<lambda>_.
     bind (get_hh intj bra ket s2lt) (\<lambda>hh.
     bind (if s2lt = 1
           then bind (on_array ''T'' Inr hh) (\<lambda>a. assert_antisym s2lt a)
           else Inr ()) (\<lambda>_.
       Inr (pp, hh)))))"

section \<open>Example stores\<close>

definition store0 :: "(unit, unit) LSTDMint" where
  "store0 = \<lparr>fcisolvers = [(), ()], linkstrl = [(), ()], linkstr = [(), ()], norb = 1,
      nelec = (1, 0), nroots = 2, nelec_r = [(1, 0), (0, 0)],
      tab_h = \<lambda>_ _ _. None, tab_hh = \<lambda>_ _ _. None, tab_phh = \<lambda>_ _ _. None,
      tab_sm = \<lambda>_ _. None, dm1 = \<lambda>_ _. None, dm2 = \<lambda>_ _. None\<rparr>"

definition const_array :: "nat list \<Rightarrow> complex \<Rightarrow> complex ndarray" where
  "const_array sh c = \<lparr>shape = sh, item = \<lambda>_. c\<rparr>"

definition const_solver ::
  "unit \<Rightarrow> nat \<Rightarrow> nat \<Rightarrow> nat \<Rightarrow> nat \<times> nat \<Rightarrow> unit \<Rightarrow> error + complex ndarray \<times> complex ndarray" where
  "const_solver s bra ket n ne l =
     Inr (const_array [2, n, n] \<i>, const_array [4, n, n, n, n] \<i>)"

definition no_pairs :: "bool ndarray" where
  "no_pairs = \<lparr>shape = [2, 2], item = \<lambda>_. False\<rparr>"

text \<open>The hopping index of one fragment that holds an \<open>\<alpha>\<close> electron in root 0 and none
  in root 1; and of three fragments of which the first keeps its electrons while one
  \<open>\<alpha>\<close> electron moves between the other two.\<close>

definition hop_frag_alpha_out :: "int ndarray" where
  "hop_frag_alpha_out = np_array3 [[[0, 1], [-1, 0]], [[0, 0], [0, 0]]]"

definition hop_with_spectator :: "int ndarray" where
  "hop_with_spectator = np_array4 [[[[0, 0], [0, 0]], [[0, 0], [0, 0]]],
                                   [[[0, 1], [-1, 0]], [[0, 0], [0, 0]]],
                                   [[[0, -1], [1, 0]], [[0, 0], [0, 0]]]]"

text \<open>
  The stores of two fragments of one orbital between which an \<open>\<alpha>\<beta>\<close> pair moves: the
  mixed two-operator amplitude of a doubly occupied orbital against the empty one is
  the one-by-one matrix 1.
\<close>

definition store_pair_ab :: "(unit, unit) LSTDMint" where
  "store_pair_ab = store0\<lparr>tab_hh := \<lambda>s i j. if s = 1 then Some (const_array [1, 1] 1) else None\<rparr>"

section \<open>The third pass\<close>

text \<open>
  Lines 423 to 426 of \<open>make_stdm12s\<close>. The loop of the last two lines, which runs the
  null rule on every diagonal pair, is the parameter \<open>crunch_diagonal\<close>.
  \<^verbatim>\<open>
  tdm1s += tdm1s.conj ().transpose (1,0,2,4,3)
  tdm2s += tdm1s.conj ().transpose (1,0,2,4,3,6,5)
  for ket in range (nroots):
      _crunch_null (ket, ket)
  \<close>
\<close>

definition third_pass ::
  "(complex ndarray \<times> complex ndarray \<Rightarrow> error + complex ndarray \<times> complex ndarray)
     \<Rightarrow> complex ndarray \<Rightarrow> complex ndarray \<Rightarrow> error + complex ndarray \<times> complex ndarray" where
  "third_pass crunch_diagonal tdm1s tdm2s =
     bind (nd_transpose [1, 0, 2, 4, 3] (nd_conj tdm1s)) (\<lambda>adj1.
     bind (nd_iadd tdm1s adj1) (\<lambda>tdm1s'.
     bind (nd_transpose [1, 0, 2, 4, 3, 6, 5] (nd_conj tdm1s')) (\<lambda>adj2.
     bind (nd_iadd tdm2s adj2) (\<lambda>tdm2s'.
       crunch_diagonal (tdm1s', tdm2s')))))"

text \<open>The output tensors as line 231 and 232 allocate them, for two roots and one
  orbital, with one entry of the upper triangle of each set.\<close>

definition tdm1s_upper :: "complex ndarray" where
  "tdm1s_upper = \<lparr>shape = [2, 2, 2, 1, 1],
                  item = \<lambda>idx. if idx = [0, 1, 0, 0, 0] then \<i> else 0\<rparr>"

definition tdm2s_upper :: "complex ndarray" where
  "tdm2s_upper = \<lparr>shape = [2, 2, 4, 1, 1, 1, 1],
                  item = \<lambda>idx. if idx = [0, 1, 0, 0, 0, 0, 0] then \<i> else 0\<rparr>"

section \<open>Subscripts with slices\<close>

text \<open>
  A subscript is a list of selections, one for each leading axis: an integer, a slice
  \<open>lo:hi\<close>, or the full slice \<open>:\<close>; the axes left over are taken whole. An integer
  outside its axis, or more selections than axes, raises \<open>IndexError\<close>; the bounds of
  a slice are clipped to the axis. \<open>sel_region\<close> is the shape of what is selected,
  \<open>sel_index\<close> the place in the array of an entry of the selection, \<open>sel_inverse\<close> the
  converse.
\<close>

datatype sel = Ix nat | Sl nat nat | All

fun sel_region :: "sel list \<Rightarrow> nat list \<Rightarrow> nat list option" where
  "sel_region [] ds = Some ds"
| "sel_region (s # ss) [] = None"
| "sel_region (Ix i # ss) (d # ds) = (if i < d then sel_region ss ds else None)"
| "sel_region (Sl lo hi # ss) (d # ds) = map_option ((#) (min hi d - min lo d)) (sel_region ss ds)"
| "sel_region (All # ss) (d # ds) = map_option ((#) d) (sel_region ss ds)"

fun sel_index :: "sel list \<Rightarrow> nat list \<Rightarrow> nat list \<Rightarrow> nat list" where
  "sel_index (Ix i # ss) (d # ds) ridx = i # sel_index ss ds ridx"
| "sel_index (Sl lo hi # ss) (d # ds) (r # ridx) = (min lo d + r) # sel_index ss ds ridx"
| "sel_index (All # ss) (d # ds) (r # ridx) = r # sel_index ss ds ridx"
| "sel_index ss ds ridx = ridx"

fun sel_inverse :: "sel list \<Rightarrow> nat list \<Rightarrow> nat list \<Rightarrow> nat list option" where
  "sel_inverse (Ix i # ss) (d # ds) (x # idx) = (if x = i then sel_inverse ss ds idx else None)"
| "sel_inverse (Sl lo hi # ss) (d # ds) (x # idx) =
     (if min lo d \<le> x \<and> x < min hi d
      then map_option ((#) (x - min lo d)) (sel_inverse ss ds idx) else None)"
| "sel_inverse (All # ss) (d # ds) (x # idx) = map_option ((#) x) (sel_inverse ss ds idx)"
| "sel_inverse [] ds idx = Some idx"
| "sel_inverse ss ds idx = None"

definition nd_getitem :: "sel list \<Rightarrow> 'a ndarray \<Rightarrow> error + 'a ndarray" where
  "nd_getitem sels A =
     (case sel_region sels (shape A) of
        None \<Rightarrow> Inl IndexError
      | Some sh \<Rightarrow> Inr \<lparr>shape = sh, item = \<lambda>ridx. item A (sel_index sels (shape A) ridx)\<rparr>)"

text \<open>
  \<open>A[sels] = V\<close>. The value is broadcast to the shape of the selection; leading axes of
  extent 1 that the value has in excess are dropped first. A value that does not fit
  raises \<open>ValueError\<close>.
\<close>

fun strip_ones :: "nat \<Rightarrow> nat list \<Rightarrow> nat list" where
  "strip_ones n [] = []"
| "strip_ones n (d # ds) = (if n < length (d # ds) \<and> d = 1 then strip_ones n ds else d # ds)"

definition nd_setitem :: "'a ndarray \<Rightarrow> sel list \<Rightarrow> 'a ndarray \<Rightarrow> error + 'a ndarray" where
  "nd_setitem A sels V =
     (case sel_region sels (shape A) of
        None \<Rightarrow> Inl IndexError
      | Some sh \<Rightarrow>
          let vsh = strip_ones (length sh) (shape V) in
          if broadcast_shapes sh vsh = Some sh
          then Inr \<lparr>shape = shape A,
                    item = \<lambda>idx. case sel_inverse sels (shape A) idx of
                                   None \<Rightarrow> item A idx
                                 | Some ridx \<Rightarrow>
                                     item V (replicate (length (shape V) - length vsh) 0
                                             @ bidx vsh ridx)\<rparr>
          else Inl ValueError)"

text \<open>\<open>np.multiply.outer\<close>; an operand that is \<open>None\<close> raises \<open>TypeError\<close>.\<close>

definition nd_outer :: "complex ndarray \<Rightarrow> complex ndarray \<Rightarrow> complex ndarray" where
  "nd_outer A B =
     \<lparr>shape = shape A @ shape B,
      item = \<lambda>idx. item A (take (length (shape A)) idx) * item B (drop (length (shape A)) idx)\<rparr>"

definition outer_opt :: "complex ndarray \<Rightarrow> complex ndarray option \<Rightarrow> error + complex ndarray" where
  "outer_opt A b = (case b of None \<Rightarrow> Inl TypeError | Some B \<Rightarrow> Inr (nd_outer A B))"

definition nd_neg :: "complex ndarray \<Rightarrow> complex ndarray" where
  "nd_neg A = nd_map uminus A"

definition entries :: "'a ndarray \<Rightarrow> 'a list" where
  "entries A = map (item A) (indices (shape A))"

text \<open>\<open>np.where (cond)[0]\<close>: the first-axis index of every entry that satisfies the
  condition, in row-major order; \<open>np.where (cond)[0][0]\<close> is the first of them.\<close>

definition where_rows :: "('a \<Rightarrow> bool) \<Rightarrow> 'a ndarray \<Rightarrow> nat list" where
  "where_rows P A = map hd (filter (\<lambda>idx. P (item A idx)) (indices (shape A)))"

definition where_first :: "('a \<Rightarrow> bool) \<Rightarrow> 'a ndarray \<Rightarrow> error + nat" where
  "where_first P A = (case where_rows P A of [] \<Rightarrow> Inl IndexError | i # _ \<Rightarrow> Inr i)"

definition amax :: "int list \<Rightarrow> error + int" where
  "amax xs = (case xs of [] \<Rightarrow> Inl ValueError | x # ys \<Rightarrow> Inr (fold max ys x))"

section \<open>The single-hop rule\<close>

text \<open>
  \<open>_crunch_1e\<close>, lines 278 to 312, a closure over \<open>tdm1s\<close>, \<open>tdm2s\<close>, \<open>hopping_index\<close>,
  \<open>ints\<close> and \<open>nlas\<close>. Lines 279 and 280 bind both \<open>d1\<close> and \<open>d2\<close> to the view
  \<open>tdm1s[bra,ket]\<close>; a write through either is a write to \<open>tdm1s\<close> under the subscript
  \<open>bra, ket\<close>, and \<open>tdm2s\<close> is named nowhere in the rule. The rule returns the pair of
  output tensors it leaves.

  The inner function, lines 295 to 299:
  \<^verbatim>\<open>
  def _crunch_1e_tdm2 (d2_ijkk, i0, i1, j0, j1, k0, k1):
      d2[s1a:s1b, i0:i1, j0:j1, k0:k1, k0:k1] = d2_ijkk
      d2[s1a:s1b ,k0:k1, k0:k1, i0:i1, j0:j1] = d2_ijkk.transpose (0,3,4,1,2)
      d2[s1s1, i0:i1, k0:k1, k0:k1, j0:j1] = -d2_ijkk[s1,...].transpose (0,3,2,1)
      d2[s1s1, k0:k1, j0:j1, i0:i1, k0:k1] = -d2_ijkk[s1,...].transpose (2,1,0,3)
  \<close>
\<close>

definition crunch_1e_tdm2 ::
  "complex ndarray \<Rightarrow> nat \<Rightarrow> nat \<Rightarrow> nat \<Rightarrow> complex ndarray
     \<Rightarrow> nat \<Rightarrow> nat \<Rightarrow> nat \<Rightarrow> nat \<Rightarrow> nat \<Rightarrow> nat \<Rightarrow> error + complex ndarray" where
  "crunch_1e_tdm2 tdm1s bra ket s1 d2_ijkk i0 i1 j0 j1 k0 k1 =
     (let s1a = s1 * 2; s1b = s1a + 2; s1s1 = s1 * 3; d2 = [Ix bra, Ix ket] in
      bind (nd_setitem tdm1s (d2 @ [Sl s1a s1b, Sl i0 i1, Sl j0 j1, Sl k0 k1, Sl k0 k1]) d2_ijkk)
        (\<lambda>t1.
      bind (nd_transpose [0, 3, 4, 1, 2] d2_ijkk) (\<lambda>v2.
      bind (nd_setitem t1 (d2 @ [Sl s1a s1b, Sl k0 k1, Sl k0 k1, Sl i0 i1, Sl j0 j1]) v2) (\<lambda>t2.
      bind (nd_sub s1 d2_ijkk) (\<lambda>sub3.
      bind (nd_transpose [0, 3, 2, 1] sub3) (\<lambda>v3.
      bind (nd_setitem t2 (d2 @ [Ix s1s1, Sl i0 i1, Sl k0 k1, Sl k0 k1, Sl j0 j1]) (nd_neg v3))
        (\<lambda>t3.
      bind (nd_sub s1 d2_ijkk) (\<lambda>sub4.
      bind (nd_transpose [2, 1, 0, 3] sub4) (\<lambda>v4.
        nd_setitem t3 (d2 @ [Ix s1s1, Sl k0 k1, Sl j0 j1, Sl i0 i1, Sl k0 k1]) (nd_neg v4))))))))))"

text \<open>
  Lines 279 to 291: the two fragments and the write of the outer product.
  \<^verbatim>\<open>
  d1 = tdm1s[bra,ket]
  d2 = tdm1s[bra,ket]
  frag_hop_list = hopping_index[:,bra,ket]
  assert (np.count_nonzero (frag_hop_list) == 2)
  assert (frag_hop_list.sum () == 0)
  assert (np.amax (frag_hop_list) == 1)
  i = np.where (frag_hop_list == 1)[0][0]
  j = np.where (frag_hop_list == -1)[0][0]
  spect_frags = np.where (frag_hop_list == 0)[0]
  inti, intj = ints[i], ints[j]
  p, r = sum (nlas[:i]), sum (nlas[:j])
  q, s = p + nlas[i], r + nlas[j]
  d1[s1,:,:] = np.multiply.outer (ints[i].get_p (bra, ket, s1), ints[j].get_h (bra, ket, s1))
  \<close>
\<close>

record hop_frame =
  frag_i :: nat
  frag_j :: nat
  off_p :: nat
  off_q :: nat
  off_r :: nat
  off_s :: nat
  spect_frags :: "nat list"

definition py_assert :: "bool \<Rightarrow> error + unit" where
  "py_assert b = (if b then Inr () else Inl (AssertionError None))"

definition crunch_1e_dm1 ::
  "('s, 'l) LSTDMint list \<Rightarrow> nat list \<Rightarrow> int ndarray \<Rightarrow> complex ndarray \<Rightarrow> nat \<Rightarrow> nat \<Rightarrow> nat
     \<Rightarrow> error + complex ndarray \<times> hop_frame" where
  "crunch_1e_dm1 ints nlas hopping_index tdm1s bra ket s1 =
     bind (nd_getitem [Ix bra, Ix ket] tdm1s) (\<lambda>d1.
     bind (nd_getitem [All, Ix bra, Ix ket] hopping_index) (\<lambda>frag_hop_list.
     bind (py_assert (length (filter (\<lambda>x. x \<noteq> 0) (entries frag_hop_list)) = 2)) (\<lambda>_.
     bind (py_assert (sum_list (entries frag_hop_list) = 0)) (\<lambda>_.
     bind (amax (entries frag_hop_list)) (\<lambda>m.
     bind (py_assert (m = 1)) (\<lambda>_.
     bind (where_first (\<lambda>x. x = 1) frag_hop_list) (\<lambda>i.
     bind (where_first (\<lambda>x. x = - 1) frag_hop_list) (\<lambda>j.
     bind (nth_err ints i) (\<lambda>inti.
     bind (nth_err ints j) (\<lambda>intj.
     bind (nth_err nlas i) (\<lambda>ni.
     bind (nth_err nlas j) (\<lambda>nj.
     bind (get_p inti bra ket s1) (\<lambda>part.
     bind (get_h intj bra ket s1) (\<lambda>hole.
     bind (outer_opt part hole) (\<lambda>block.
     bind (nd_setitem tdm1s [Ix bra, Ix ket, Ix s1, All, All] block) (\<lambda>tdm1s'.
       Inr (tdm1s',
            \<lparr>frag_i = i, frag_j = j,
             off_p = sum_list (take i nlas), off_q = sum_list (take i nlas) + ni,
             off_r = sum_list (take j nlas), off_s = sum_list (take j nlas) + nj,
             spect_frags = where_rows (\<lambda>x. x = 0) frag_hop_list\<rparr>)))))))))))))))))"

text \<open>
  Lines 300 to 312: the two three-operator blocks and the loop over the spectator
  fragments, each through \<open>_crunch_1e_tdm2\<close>.
  \<^verbatim>\<open>
  d2_ijii = np.multiply.outer (ints[i].get_pph (bra, ket, s1), ints[j].get_h (bra, ket, s1)).transpose (0,1,4,2,3)
  _crunch_1e_tdm2 (d2_ijii, p, q, r, s, p, q)
  d2_ijjj = np.multiply.outer (ints[i].get_p (bra, ket, s1), ints[j].get_phh (bra, ket, s1)).transpose (1,0,4,2,3)
  _crunch_1e_tdm2 (d2_ijjj, p, q, r, s, r, s)
  for k in np.where (frag_hop_list == 0)[0]:
      t = sum (nlas[:k])
      u = t + nlas[k]
      d1_skk = ints[k].get_dm1 (bra, ket)
      d2_ijkk = np.multiply.outer (d1, ints[k].get_dm1 (bra, ket)).transpose (2,0,1,3,4)
      _crunch_1e_tdm2 (d2_ijkk, p, q, r, s, t, u)
  \<close>
\<close>

definition crunch_1e_spectator ::
  "('s, 'l) LSTDMint list \<Rightarrow> nat list \<Rightarrow> nat \<Rightarrow> nat \<Rightarrow> nat \<Rightarrow> hop_frame \<Rightarrow> nat \<Rightarrow> complex ndarray
     \<Rightarrow> error + complex ndarray" where
  "crunch_1e_spectator ints nlas bra ket s1 fr k tdm1s =
     bind (nth_err nlas k) (\<lambda>nk.
     bind (nth_err ints k) (\<lambda>intk.
     bind (get_dm1 intk bra ket) (\<lambda>d1_skk.
     bind (nd_getitem [Ix bra, Ix ket] tdm1s) (\<lambda>d1.
     bind (get_dm1 intk bra ket) (\<lambda>dk.
     bind (outer_opt d1 dk) (\<lambda>prod.
     bind (nd_transpose [2, 0, 1, 3, 4] prod) (\<lambda>d2_ijkk.
       crunch_1e_tdm2 tdm1s bra ket s1 d2_ijkk (off_p fr) (off_q fr) (off_r fr) (off_s fr)
         (sum_list (take k nlas)) (sum_list (take k nlas) + nk))))))))"

definition crunch_1e ::
  "('s, 'l) LSTDMint list \<Rightarrow> nat list \<Rightarrow> int ndarray \<Rightarrow> complex ndarray \<times> complex ndarray
     \<Rightarrow> nat \<Rightarrow> nat \<Rightarrow> nat \<Rightarrow> error + complex ndarray \<times> complex ndarray" where
  "crunch_1e ints nlas hopping_index tdms bra ket s1 =
     bind (crunch_1e_dm1 ints nlas hopping_index (fst tdms) bra ket s1) (\<lambda>(t1, fr).
     bind (nth_err ints (frag_i fr)) (\<lambda>inti.
     bind (get_pph inti bra ket s1) (\<lambda>pph.
     bind (nth_err ints (frag_j fr)) (\<lambda>intj.
     bind (get_h intj bra ket s1) (\<lambda>hole.
     bind (outer_opt pph hole) (\<lambda>prod1.
     bind (nd_transpose [0, 1, 4, 2, 3] prod1) (\<lambda>d2_ijii.
     bind (crunch_1e_tdm2 t1 bra ket s1 d2_ijii (off_p fr) (off_q fr) (off_r fr) (off_s fr)
             (off_p fr) (off_q fr)) (\<lambda>t2.
     bind (get_p inti bra ket s1) (\<lambda>part.
     bind (get_phh intj bra ket s1) (\<lambda>phh.
     bind (outer_opt part phh) (\<lambda>prod2.
     bind (nd_transpose [1, 0, 4, 2, 3] prod2) (\<lambda>d2_ijjj.
     bind (crunch_1e_tdm2 t2 bra ket s1 d2_ijjj (off_p fr) (off_q fr) (off_r fr) (off_s fr)
             (off_r fr) (off_s fr)) (\<lambda>t3.
     bind (for_each (crunch_1e_spectator ints nlas bra ket s1 fr) (spect_frags fr) t3) (\<lambda>t4.
       Inr (t4, snd tdms)))))))))))))))"

text \<open>Two stores in which every one-operator entry is a vector over the one orbital of
  the fragment and every three-operator entry has the shape the builder gives it.\<close>

definition store_hop :: "(unit, unit) LSTDMint" where
  "store_hop = store0\<lparr>tab_h := \<lambda>s i j. Some (const_array [1] 1),
                      tab_phh := \<lambda>s i j. Some (const_array [2, 1, 1, 1] 1)\<rparr>"

definition tdm1s_zero :: "complex ndarray" where
  "tdm1s_zero = const_array [2, 2, 2, 2, 2] 0"

definition tdm2s_zero :: "complex ndarray" where
  "tdm2s_zero = const_array [2, 2, 4, 2, 2, 2, 2] 0"

section \<open>Auxiliary lemmas\<close>

lemma bind_Inl [simp]: "bind (Inl e) f = Inl e"
  by (simp add: bind_def)

lemma bind_Inr [simp]: "bind (Inr x) f = f x"
  by (simp add: bind_def)

section \<open>Properties of \<open>is_hybrid_or_rsh\<close>\<close>

text \<open>
  Claim C10. For a code on which both library routines return, \<open>is_hybrid_or_rsh\<close> is
  true exactly when the hybrid coefficient or the range-separation parameter \<open>\<omega>\<close> (the
  first component of the triple) exceeds \<open>1e-10\<close> in absolute value; the result is the
  same for every \<open>\<alpha>\<close> and \<open>\<beta>\<close> of the triple.
\<close>

theorem is_hybrid_or_rsh_iff:
  assumes "hybrid_coeff xc = Inr hyb"
    and "rsh_coeff xc = Inr (omega, alpha, beta)"
    and "rsh_coeff' xc = Inr (omega, alpha', beta')"
  shows "is_hybrid_or_rsh hybrid_coeff rsh_coeff xc = Inr (\<bar>hyb\<bar> > tol \<or> \<bar>omega\<bar> > tol)
       \<and> is_hybrid_or_rsh hybrid_coeff rsh_coeff' xc = is_hybrid_or_rsh hybrid_coeff rsh_coeff xc"
  using assms by (simp add: is_hybrid_or_rsh_def)

theorem is_hybrid_or_rsh_iff_witness:
  "is_hybrid_or_rsh (\<lambda>_. Inr 0) (\<lambda>_. Inr (1 / 3, 1, -1)) ''HSE06'' = Inr True
   \<and> is_hybrid_or_rsh (\<lambda>_. Inr 0) (\<lambda>_. Inr (1 / 3, 0, 5)) ''HSE06''
       = is_hybrid_or_rsh (\<lambda>_. Inr 0) (\<lambda>_. Inr (1 / 3, 1, -1)) ''HSE06''"
  using is_hybrid_or_rsh_iff [of "\<lambda>_. Inr 0" "''HSE06''" 0 "\<lambda>_. Inr (1 / 3, 1, -1)" "1 / 3" 1 "-1"
      "\<lambda>_. Inr (1 / 3, 0, 5)" 0 5]
  by (simp add: tol_def)

section \<open>Properties of the classification\<close>

lemma upt_0_2: "[0..<2] = [0, Suc 0]"
  by (simp add: numeral_2_eq_2)

lemma even_sum_abs: "even (\<Sum>x\<leftarrow>xs. \<bar>g x :: int\<bar>) = even (\<Sum>x\<leftarrow>xs. g x)"
  by (induction xs) auto

lemma sum_list_pair: "(\<Sum>x\<leftarrow>xs. (g x + h x :: int)) = (\<Sum>x\<leftarrow>xs. g x) + (\<Sum>x\<leftarrow>xs. h x)"
  by (induction xs) auto

lemma sum_abs_nonneg: "0 \<le> (\<Sum>x\<leftarrow>xs. \<bar>g x :: int\<bar>)"
  by (induction xs) auto

lemma in_shape2: "in_shape [R, R'] [b, k] = (b < R \<and> k < R')"
  by (simp add: in_shape_def)

text \<open>On a hopping tensor of shape \<open>(F, 2, R, R)\<close> the classification succeeds; these
  are its entries.\<close>

lemma classify_fields:
  assumes "shape hop = [F, 2, R, R]"
  shows "\<exists>c. classify hop = Inr c
    \<and> shape (nop_index c) = [R, R] \<and> shape (nspin_index c) = [R, R]
    \<and> shape (conserv_index c) = [R, R] \<and> shape (nfrag_index c) = [R, R]
    \<and> shape (ncharge_index c) = [R, R]
    \<and> (\<forall>b k. item (nop_index c) [b, k]
            = (\<Sum>f \<leftarrow> [0..<F]. \<bar>item hop [f, 0, b, k]\<bar>) + (\<Sum>f \<leftarrow> [0..<F]. \<bar>item hop [f, 1, b, k]\<bar>))
    \<and> (\<forall>b k. item (nspin_index c) [b, k] = (\<Sum>f \<leftarrow> [0..<F]. \<bar>item hop [f, 1, b, k]\<bar>) div 2)
    \<and> (\<forall>b k. item (conserv_index c) [b, k]
            = (\<forall>f < F. item hop [f, 0, b, k] + item hop [f, 1, b, k] = 0))"
  using assms
  apply (simp add: classify_def nd_sum_def nd_all_def nd_count_nonzero_def nd_reduce_def
      nd_map_def nd_sub_def insert_at_def upt_0_2)
  apply (auto simp: list_all_iff)
  done

lemma symm_fields:
  assumes "shape hop = [F, 2, R, R]"
  shows "\<exists>s. symm_index hop = Inr s \<and> shape s = [R, R]
     \<and> (\<forall>b k. item s [b, k] = ((\<Sum>f \<leftarrow> [0..<F]. item hop [f, 0, b, k]) = 0
                              \<and> (\<Sum>f \<leftarrow> [0..<F]. item hop [f, 1, b, k]) = 0))"
  using assms
  by (simp add: symm_index_def nd_sum_def nd_all_def nd_reduce_def nd_map_def insert_at_def upt_0_2)

lemma total_split:
  assumes "shape hop = F # sh"
  shows "total_hop_magnitude hop b k = spin_hop_magnitude hop 0 b k + spin_hop_magnitude hop 1 b k"
  using assms by (simp add: total_hop_magnitude_def spin_hop_magnitude_def upt_0_2 sum_list_pair)

lemmas eval_defs = opCount_def spinChannel_def conserving_def conserv_def dispatch_def
  classify_def symm_index_def nd_sum_def nd_all_def nd_count_nonzero_def nd_reduce_def nd_map_def
  nd_sub_def insert_at_def upt_0_2 nd_get_def in_shape_def np_array4_def
  total_hop_magnitude_def spin_hop_magnitude_def select_rule_def select_rule_4_def nop_idnex_def

lemma sum_abs_zero:
  "(\<Sum>x\<leftarrow>xs. \<bar>g x :: int\<bar>) = 0 \<Longrightarrow> x \<in> set xs \<Longrightarrow> g x = 0"
proof (induction xs)
  case Nil
  then show ?case by simp
next
  case (Cons y ys)
  have "0 \<le> (\<Sum>x\<leftarrow>ys. \<bar>g x\<bar>)" by (rule sum_abs_nonneg)
  with Cons.prems(1) have "\<bar>g y\<bar> = 0" and "(\<Sum>x\<leftarrow>ys. \<bar>g x\<bar>) = 0" by simp_all
  with Cons show ?case by auto
qed

text \<open>
  The test of line 244 sums the hops over the two spins within each fragment, where
  line 39 sums them over the fragments for each spin. A single hop between two
  fragments conserves both spin counts, fails the test of line 244, and is passed over
  by the dispatch; a spin flip within one fragment conserves neither spin count and
  passes it.
\<close>

lemma conserv_index_is_not_symm_index:
  "conserving hop_alpha_hop 0 1 = Inr True \<and> conserv hop_alpha_hop 0 1 = Inr False
   \<and> dispatch hop_alpha_hop 0 1 = Inr Skip
   \<and> conserving hop_spin_flip 0 1 = Inr False \<and> conserv hop_spin_flip 0 1 = Inr True"
  by (simp add: eval_defs hop_alpha_hop_def hop_spin_flip_def)

text \<open>
  Claim C2, as stated, fails: for the single \<open>\<alpha>\<close> hop between two fragments the value
  \<open>nop_index[0,1]\<close> is 2, the whole absolute hop magnitude, and half of that magnitude
  is 1.
\<close>

theorem opCount_not_half:
  "opCount hop_alpha_hop 0 1 = Inr 2 \<and> total_hop_magnitude hop_alpha_hop 0 1 div 2 = 1"
  by (simp add: eval_defs hop_alpha_hop_def)

text \<open>
  Claim C2, amended. For every pair of roots, \<open>nop_index\<close> is the total absolute hop
  magnitude over all fragments and both spins, not half of it. For a pair that
  conserves each spin over the fragments it is even, hence 0, 2 or 4 when it is at most
  4. When it is 0 the dispatch selects the null rule.
\<close>

theorem opCount_total:
  assumes "shape hop = [F, 2, R, R]" and "bra < R" and "ket < R"
  shows "opCount hop bra ket = Inr (total_hop_magnitude hop bra ket)
     \<and> (conserving hop bra ket = Inr True
          \<longrightarrow> even (total_hop_magnitude hop bra ket)
            \<and> (total_hop_magnitude hop bra ket \<le> 4 \<longrightarrow> total_hop_magnitude hop bra ket \<in> {0, 2, 4}))
     \<and> (total_hop_magnitude hop bra ket = 0
          \<longrightarrow> dispatch hop bra ket = Inr (Crunch_null bra ket))"
proof -
  obtain c where c: "classify hop = Inr c" "shape (nop_index c) = [R, R]"
    "shape (nspin_index c) = [R, R]" "shape (conserv_index c) = [R, R]"
    "\<And>b k. item (nop_index c) [b, k]
        = (\<Sum>f \<leftarrow> [0..<F]. \<bar>item hop [f, 0, b, k]\<bar>) + (\<Sum>f \<leftarrow> [0..<F]. \<bar>item hop [f, 1, b, k]\<bar>)"
    "\<And>b k. item (conserv_index c) [b, k]
        = (\<forall>f < F. item hop [f, 0, b, k] + item hop [f, 1, b, k] = 0)"
    using classify_fields [OF assms(1)] by blast
  obtain s where s: "symm_index hop = Inr s" "shape s = [R, R]"
    "\<And>b k. item s [b, k] = ((\<Sum>f \<leftarrow> [0..<F]. item hop [f, 0, b, k]) = 0
                          \<and> (\<Sum>f \<leftarrow> [0..<F]. item hop [f, 1, b, k]) = 0)"
    using symm_fields [OF assms(1)] by blast
  let ?T = "total_hop_magnitude hop bra ket"
  let ?A = "\<Sum>f \<leftarrow> [0..<F]. \<bar>item hop [f, 0, bra, ket]\<bar>"
  let ?B = "\<Sum>f \<leftarrow> [0..<F]. \<bar>item hop [f, 1, bra, ket]\<bar>"
  have T: "?T = ?A + ?B"
    using assms(1) by (simp add: total_split spin_hop_magnitude_def)
  have op: "opCount hop bra ket = Inr ?T"
    using c assms by (simp add: opCount_def nd_get_def in_shape2 T)
  have ev: "even ?T" if "conserving hop bra ket = Inr True"
  proof -
    from that have "item s [bra, ket]"
      using s assms by (simp add: conserving_def nd_get_def in_shape2)
    then show ?thesis
      unfolding T using s(3) [of bra ket] by (simp add: even_sum_abs)
  qed
  have nonneg: "0 \<le> ?A" "0 \<le> ?B" by (simp_all add: sum_abs_nonneg)
  have vals: "?T \<in> {0, 2, 4}" if "even ?T" "?T \<le> 4"
  proof -
    from that(1) obtain m where m: "?T = 2 * m" by (auto elim: evenE)
    with nonneg T that(2) have "m = 0 \<or> m = 1 \<or> m = 2" by auto
    with m show ?thesis by auto
  qed
  have d0: "dispatch hop bra ket = Inr (Crunch_null bra ket)" if "?T = 0"
  proof -
    from that T nonneg have A0: "?A = 0" and B0: "?B = 0" by simp_all
    have "item hop [f, 0, bra, ket] = 0 \<and> item hop [f, 1, bra, ket] = 0" if "f < F" for f
      using sum_abs_zero [OF A0, of f] sum_abs_zero [OF B0, of f] that by simp
    then have "item (conserv_index c) [bra, ket]"
      using c(6) by simp
    moreover have "item (nop_index c) [bra, ket] = 0"
      using c(5) [of bra ket] A0 B0 by simp
    ultimately show ?thesis
      using c assms
      by (simp add: dispatch_def select_rule_def nd_get_def in_shape2)
  qed
  show ?thesis
    using op ev vals d0 by blast
qed

theorem opCount_total_witness:
  "opCount hop_null 0 1 = Inr 0 \<and> dispatch hop_null 0 1 = Inr (Crunch_null 0 1)
   \<and> conserving hop_pair_ab 0 1 = Inr True \<and> opCount hop_pair_ab 0 1 = Inr 4"
  using opCount_total [of hop_null 2 2 0 1] opCount_total [of hop_pair_ab 2 2 0 1]
  by (simp add: eval_defs hop_null_def hop_pair_ab_def)

text \<open>
  Claim C3, as stated, fails: the pair of \<open>hop_double_flip\<close> conserves both spin counts
  and has an operator count of 8, which no rule covers; the dispatch ends in the
  \<open>NameError\<close> of line 407, a failure that names neither the pair nor its hop vector.
\<close>

theorem dispatch_uncovered_name_error:
  "conserving hop_double_flip 0 1 = Inr True \<and> opCount hop_double_flip 0 1 = Inr 8
   \<and> dispatch hop_double_flip 0 1 = Inl (NameError ''nop_idnex'')"
  by (simp add: eval_defs hop_double_flip_def)

text \<open>
  Claim C3, amended. For a pair of roots whose operator count is covered by no assembly
  rule (a count other than 0, 2 and 4), the dispatch runs no assembly rule and reports
  neither the pair nor its hop vector: it passes the pair over, or it ends in a failure
  that names neither.
\<close>

theorem dispatch_uncovered_no_report:
  assumes "shape hop = [F, 2, R, R]" and "bra < R" and "ket < R"
    and "total_hop_magnitude hop bra ket \<notin> {0, 2, 4}"
  shows "dispatch hop bra ket = Inr Skip \<or> dispatch hop bra ket = Inl (NameError ''nop_idnex'')"
proof -
  obtain c where c: "classify hop = Inr c" "shape (nop_index c) = [R, R]"
    "shape (nspin_index c) = [R, R]" "shape (conserv_index c) = [R, R]"
    "\<And>b k. item (nop_index c) [b, k]
        = (\<Sum>f \<leftarrow> [0..<F]. \<bar>item hop [f, 0, b, k]\<bar>) + (\<Sum>f \<leftarrow> [0..<F]. \<bar>item hop [f, 1, b, k]\<bar>)"
    using classify_fields [OF assms(1)] by blast
  have "total_hop_magnitude hop bra ket = item (nop_index c) [bra, ket]"
    using assms(1) c(5) [of bra ket] by (simp add: total_split spin_hop_magnitude_def)
  with assms(4) have "item (nop_index c) [bra, ket] \<noteq> 0" "item (nop_index c) [bra, ket] \<noteq> 2"
    by auto
  then show ?thesis
    using c assms(2,3)
    by (simp add: dispatch_def select_rule_def nd_get_def in_shape2 nop_idnex_def)
qed

theorem dispatch_uncovered_no_report_witness:
  "total_hop_magnitude hop_double_flip 0 1 = 8
   \<and> (dispatch hop_double_flip 0 1 = Inr Skip
      \<or> dispatch hop_double_flip 0 1 = Inl (NameError ''nop_idnex''))"
  using dispatch_uncovered_no_report [of hop_double_flip 2 2 0 1]
  by (simp add: total_hop_magnitude_def hop_double_flip_def np_array4_def upt_0_2)

text \<open>
  Claim C8. For a pair of roots that conserves each spin over the fragments and has
  transition order 1 or 2 (an operator count of 2 or 4), \<open>nspin_index\<close> is the total
  absolute \<open>\<beta>\<close> hop magnitude divided by 2, the division being exact; it is 0 when both
  moving electrons are \<open>\<alpha>\<close>, 1 when one is \<open>\<alpha>\<close> and one \<open>\<beta>\<close>, and 2 when both are \<open>\<beta>\<close>.
\<close>

theorem spinChannel_beta_half:
  assumes "shape hop = [F, 2, R, R]" and "bra < R" and "ket < R"
    and "conserving hop bra ket = Inr True"
    and "opCount hop bra ket = Inr 2 \<or> opCount hop bra ket = Inr 4"
  shows "\<exists>spin. spinChannel hop bra ket = Inr spin
     \<and> 2 * spin = spin_hop_magnitude hop 1 bra ket
     \<and> spin \<in> {0, 1, 2}
     \<and> (spin_hop_magnitude hop 0 bra ket = 4 \<and> spin_hop_magnitude hop 1 bra ket = 0 \<longrightarrow> spin = 0)
     \<and> (spin_hop_magnitude hop 0 bra ket = 2 \<and> spin_hop_magnitude hop 1 bra ket = 2 \<longrightarrow> spin = 1)
     \<and> (spin_hop_magnitude hop 0 bra ket = 0 \<and> spin_hop_magnitude hop 1 bra ket = 4 \<longrightarrow> spin = 2)"
proof -
  obtain c where c: "classify hop = Inr c" "shape (nop_index c) = [R, R]"
    "shape (nspin_index c) = [R, R]"
    "\<And>b k. item (nop_index c) [b, k]
        = (\<Sum>f \<leftarrow> [0..<F]. \<bar>item hop [f, 0, b, k]\<bar>) + (\<Sum>f \<leftarrow> [0..<F]. \<bar>item hop [f, 1, b, k]\<bar>)"
    "\<And>b k. item (nspin_index c) [b, k] = (\<Sum>f \<leftarrow> [0..<F]. \<bar>item hop [f, 1, b, k]\<bar>) div 2"
    using classify_fields [OF assms(1)] by blast
  obtain s where s: "symm_index hop = Inr s" "shape s = [R, R]"
    "\<And>b k. item s [b, k] = ((\<Sum>f \<leftarrow> [0..<F]. item hop [f, 0, b, k]) = 0
                          \<and> (\<Sum>f \<leftarrow> [0..<F]. item hop [f, 1, b, k]) = 0)"
    using symm_fields [OF assms(1)] by blast
  let ?A = "spin_hop_magnitude hop 0 bra ket" and ?B = "spin_hop_magnitude hop 1 bra ket"
  have A: "?A = (\<Sum>f \<leftarrow> [0..<F]. \<bar>item hop [f, 0, bra, ket]\<bar>)"
    and B: "?B = (\<Sum>f \<leftarrow> [0..<F]. \<bar>item hop [f, 1, bra, ket]\<bar>)"
    using assms(1) by (simp_all add: spin_hop_magnitude_def)
  have sp: "spinChannel hop bra ket = Inr (?B div 2)"
    unfolding B using c assms by (simp add: spinChannel_def nd_get_def in_shape2)
  have "item s [bra, ket]"
    using assms s by (simp add: conserving_def nd_get_def in_shape2)
  then have "even ?B"
    unfolding B using s(3) [of bra ket] by (simp add: even_sum_abs)
  then have ex: "2 * (?B div 2) = ?B" by simp
  have "?A + ?B = 2 \<or> ?A + ?B = 4"
    unfolding A B using assms c by (simp add: opCount_def nd_get_def in_shape2)
  moreover have "0 \<le> ?A" "0 \<le> ?B"
    unfolding A B by (simp_all add: sum_abs_nonneg)
  ultimately have "?B div 2 \<in> {0, 1, 2}" by auto
  with sp ex show ?thesis by auto
qed

theorem spinChannel_beta_half_witness:
  "conserving hop_pair_ab 0 1 = Inr True \<and> opCount hop_pair_ab 0 1 = Inr 4
   \<and> spin_hop_magnitude hop_pair_ab 0 0 1 = 2 \<and> spin_hop_magnitude hop_pair_ab 1 0 1 = 2
   \<and> spinChannel hop_pair_ab 0 1 = Inr 1"
  using spinChannel_beta_half [of hop_pair_ab 2 2 0 1]
  by (simp add: eval_defs hop_pair_ab_def)

section \<open>Properties of the intermediate builder\<close>

lemma isl_bind: "isl (bind m f) = (isl m \<or> (\<exists>x. m = Inr x \<and> isl (f x)))"
  by (cases m) auto

lemma bind_eq_Inr: "bind m f = Inr y \<longleftrightarrow> (\<exists>x. m = Inr x \<and> f x = Inr y)"
  by (cases m) auto

lemma for_each_first_fails:
  assumes "xs \<noteq> []" and "\<And>x t. isl (body x t)"
  shows "isl (for_each body xs t)"
  using assms by (cases xs) (auto simp: isl_bind)

lemma ket_body_fails: "isl (ket_body rest ket self)"
  by (cases "nth_err (nelec_r self) ket") (simp_all add: ket_body_def self_ci_def)

lemma hidx_ket_rank3:
  assumes "shape hop = [2, R, R]" and "s < 2"
  shows "hidx_ket hop s = Inr (filter (\<lambda>k. \<exists>b < R. item hop [s, b, k] < 0) [0..<R])"
  using assms
  by (auto simp: hidx_ket_def nd_sub_def nd_reduce_def nd_map_def insert_at_def list_ex_iff
      intro!: filter_cong)

text \<open>
  Claim C9. The read \<open>self.ci\<close> raises on every store, and with it every
  operator-application step; so when some root of the fragment has a departing \<open>\<alpha>\<close> or
  \<open>\<beta>\<close> electron (a negative entry of the hopping index of the fragment), \<open>kernel\<close>
  raises, whatever the solver returns and whatever the statements after the read would
  do. It can complete only for a fragment without such a root.
\<close>

theorem kernel_fails_on_departure:
  assumes "shape hop = [2, R, R]"
    and "b < R" and "k < R" and "item hop [0, b, k] < 0 \<or> item hop [1, b, k] < 0"
  shows "isl (kernel trans_rdm12s alpha_rest beta_rest self (ci :: 'v list) hop zerop_index onep_index)
     \<and> (self_ci self :: error + 'v list) = Inl (AttributeError ''ci'')"
proof -
  let ?A = "filter (\<lambda>k. \<exists>b < R. item hop [0, b, k] < 0) [0..<R]"
  let ?B = "filter (\<lambda>k. \<exists>b < R. item hop [Suc 0, b, k] < 0) [0..<R]"
  have a: "hidx_ket hop 0 = Inr ?A" and b: "hidx_ket hop 1 = Inr ?B"
    using hidx_ket_rank3 [OF assms(1)] by simp_all
  have ne: "?A \<noteq> [] \<or> ?B \<noteq> []"
    using assms(2-4) by (auto simp: filter_empty_conv)
  have fb: "isl (for_each bpvec_ket ?B t)" if "?B \<noteq> []" for t :: "'v option list"
    using that by (intro for_each_first_fails) (simp_all add: bpvec_ket_def)
  have fa: "isl (for_each (ket_body alpha_rest) ?A t)" if "?A \<noteq> []" for t
    using that by (intro for_each_first_fails) (simp_all add: ket_body_fails)
  have "isl (kernel trans_rdm12s alpha_rest beta_rest self ci hop zerop_index onep_index)"
  proof (rule ccontr)
    assume "\<not> ?thesis"
    then obtain r where
      "kernel trans_rdm12s alpha_rest beta_rest self ci hop zerop_index onep_index = Inr r"
      by (cases "kernel trans_rdm12s alpha_rest beta_rest self ci hop zerop_index onep_index") auto
    then obtain s1 s2 and bp :: "'v option list" where
      "for_each bpvec_ket ?B (replicate (nroots self) None) = Inr bp"
      "for_each (ket_body alpha_rest) ?A s1 = Inr s2"
      unfolding kernel_def a b by (auto simp: bind_eq_Inr)
    with ne fa [of s1] fb [of "replicate (nroots self) None"] show False by auto
  qed
  then show ?thesis by (simp add: self_ci_def)
qed

theorem kernel_fails_on_departure_witness:
  "item hop_frag_alpha_out [0, 1, 0] < 0
   \<and> kernel const_solver (\<lambda>ci ket ne s. Inr s) (\<lambda>ci ket ne s. Inr s) store0 [0, 1]
        hop_frag_alpha_out no_pairs no_pairs = Inl (AttributeError ''ci'')"
  using kernel_fails_on_departure [of hop_frag_alpha_out 2 1 0 const_solver
      "\<lambda>ci ket ne s. Inr s" "\<lambda>ci ket ne s. Inr s" store0 "[0, 1]" no_pairs no_pairs]
  by (simp add: hop_frag_alpha_out_def np_array3_def kernel_def spectator_index_def
      spectator_mask_def stack_rows_def where2_def nd_all_def nd_reduce_def nd_map_def
      insert_at_def upt_0_2 unpack2_def spectator_body_def nth_err_def store0_def
      const_solver_def const_array_def set_dm1_def set_dm2_def nd_transpose_def nd_conj_def
      write2_def nd_get_def in_shape_def no_pairs_def hidx_ket_def nd_sub_def bpvec_ket_def
      ket_body_def self_ci_def)

section \<open>Properties of the same-spin two-operator amplitudes\<close>

lemma combinations2_set: "set (combinations2 n) = {(q, p). q < p \<and> p < n}"
  by (force simp: combinations2_def)

text \<open>
  The first half of the statement on the same-spin amplitudes holds exactly. Every
  same-spin two-operator matrix that the builder constructs (lines 187 to 191 for
  \<open>\<alpha>\<alpha>\<close>, 213 to 217 for \<open>\<beta>\<beta>\<close>) is square over the orbitals of the fragment and
  satisfies \<open>M + M\<^sup>t = 0\<close>, with the computed amplitude in every entry above the diagonal.
\<close>

theorem same_spin_hh_antisymmetric:
  "shape (same_spin_hh n amp) = [n, n]
   \<and> (\<forall>q p. item (same_spin_hh n amp) [q, p] + item (same_spin_hh n amp) [p, q] = 0)
   \<and> (\<forall>q p. q < p \<and> p < n \<longrightarrow> item (same_spin_hh n amp) [q, p] = amp q p)"
  by (auto simp: same_spin_hh_def Let_def nd_T_def map_of_zip_map combinations2_set)

theorem same_spin_hh_antisymmetric_witness:
  "item (same_spin_hh 2 (\<lambda>q p. \<i>)) [0, 1] = \<i> \<and> item (same_spin_hh 2 (\<lambda>q p. \<i>)) [1, 0] = - \<i>"
proof -
  let ?M = "same_spin_hh 2 (\<lambda>q p. \<i>)"
  have a: "\<forall>q p. q < p \<and> p < 2 \<longrightarrow> item ?M [q, p] = \<i>"
    and b: "\<forall>q p. item ?M [q, p] + item ?M [p, q] = 0"
    using same_spin_hh_antisymmetric [of 2 "\<lambda>q p. \<i>"] by blast+
  from a have "item ?M [0, 1] = \<i>" by simp
  moreover from b have "item ?M [0, 1] + item ?M [1, 0] = 0" by blast
  ultimately show ?thesis by (simp add: add_eq_0_iff)
qed

text \<open>
  The assertions of lines 334 and 336 stand under \<open>if s2lt == 1\<close>, the mixed channel:
  on the two same-spin channels no matrix is tested at all.
\<close>

lemma assert_antisym_same_spin_skipped:
  "s2lt \<noteq> 1 \<Longrightarrow> assert_antisym s2lt M = Inr ()"
  by (simp add: assert_antisym_def)

text \<open>
  Claim C7 fails on the code in its second half. The test of the antisymmetry relation
  is applied to the mixed channel, where the relation is not expected, and to no
  same-spin channel. For an \<open>\<alpha>\<beta>\<close> pair that moves between two fragments of one orbital
  the amplitudes are the matrix \<open>(1)\<close>, and the pair-hop rule ends in an
  \<open>AssertionError\<close> whose message is the number 2, the largest entry of \<open>M + M\<^sup>t\<close>: it
  names no fragment, pair or spin.
\<close>

theorem pair_hop_asserts_mixed_channel:
  "crunch_pair_hop_amplitudes store_pair_ab store_pair_ab 0 1 1 = Inl (AssertionError (Some 2))"
  by (simp add: crunch_pair_hop_amplitudes_def store_pair_ab_def store0_def get_pp_def
      read3_def on_array_def assert_antisym_def nd_conj_def nd_map_def nd_T_def const_array_def
      nd_add_def broadcast_shapes_def bidx_def tol8_def amax_real_def)

section \<open>Properties of the spectator step\<close>

lemma spectator_mask_rank3:
  assumes "shape hop = [2, R, R]"
  shows "spectator_mask hop R = Inr \<lparr>shape = [R, R],
           item = \<lambda>idx. if idx ! 0 < idx ! 1 \<and> idx ! 1 < R then False
                        else item hop (0 # idx) = 0 \<and> item hop (1 # idx) = 0\<rparr>"
  using assms
  by (auto simp: spectator_mask_def nd_all_def nd_reduce_def nd_map_def insert_at_def upt_0_2)

text \<open>
  Claim C6, as stated, fails. In \<open>hop_with_spectator\<close> fragment 0 keeps its electrons
  while an electron moves from fragment 1 to fragment 2: the spectator mask of
  fragment 0 holds the pair \<open>(1, 0)\<close>, whose hop in fragment 1 is not zero. (On this
  input the loop of line 144 then fails to unpack a row of three entries, and no
  density is requested at all.)
\<close>

theorem spectator_mask_other_fragments:
  "bind (nd_sub 0 hop_with_spectator) (\<lambda>h. bind (spectator_mask h 2) (\<lambda>m. nd_get m [1, 0])) = Inr True
   \<and> nd_get hop_with_spectator [1, 0, 1, 0] = Inr (- 1)
   \<and> bind (nd_sub 0 hop_with_spectator) (\<lambda>h.
        kernel const_solver (\<lambda>ci ket ne s. Inr s) (\<lambda>ci ket ne s. Inr s) store0 [0 :: nat, 1]
          h no_pairs no_pairs) = Inl ValueError"
  by (simp add: hop_with_spectator_def np_array4_def kernel_def spectator_index_def
      spectator_mask_def stack_rows_def where2_def nd_all_def nd_reduce_def nd_map_def
      insert_at_def upt_0_2 unpack2_def nd_get_def in_shape_def nd_sub_def store0_def)

text \<open>
  Claim C6, amended. The spectator mask of the builder holds exactly the pairs with
  \<open>bra \<ge> ket\<close> whose hop in this fragment is zero for both spins; the other fragments
  and the conservation of the pair are not consulted. For a pair \<open>(i, j)\<close> that the loop
  visits, the body requests the solver's densities for the amplitude vectors \<open>i\<close> and
  \<open>j\<close> once, stores the one-body density, and stores the two-body density only when
  \<open>zerop_index\<close> marks the pair as a null excitation of the whole system.
\<close>

theorem spectator_mask_this_fragment:
  assumes "shape hop = [2, R, R]" and "b < R" and "k < R"
  shows "bind (spectator_mask hop R) (\<lambda>m. nd_get m [b, k])
           = Inr (k \<le> b \<and> item hop [0, b, k] = 0 \<and> item hop [1, b, k] = 0)
     \<and> (\<forall>self'. spectator_body trans_rdm12s ci zerop_index i j self = Inr self' \<longrightarrow>
          (\<exists>dm1s dm2s s1.
             trans_rdm12s (fcisolvers self ! i) (ci ! i) (ci ! j) (norb self) (nelec_r self ! i)
               (linkstr self ! i) = Inr (dm1s, dm2s)
             \<and> set_dm1 self i j dm1s = Inr s1
             \<and> (if nd_get zerop_index [i, j] = Inr True then set_dm2 s1 i j dm2s = Inr self'
                else self' = s1)))"
proof -
  have 1: "bind (spectator_mask hop R) (\<lambda>m. nd_get m [b, k])
           = Inr (k \<le> b \<and> item hop [0, b, k] = 0 \<and> item hop [1, b, k] = 0)"
    using assms by (auto simp: spectator_mask_rank3 nd_get_def in_shape_def)
  have 2: "\<exists>dm1s dm2s s1.
             trans_rdm12s (fcisolvers self ! i) (ci ! i) (ci ! j) (norb self) (nelec_r self ! i)
               (linkstr self ! i) = Inr (dm1s, dm2s)
             \<and> set_dm1 self i j dm1s = Inr s1
             \<and> (if nd_get zerop_index [i, j] = Inr True then set_dm2 s1 i j dm2s = Inr self'
                else self' = s1)"
    if "spectator_body trans_rdm12s ci zerop_index i j self = Inr self'" for self'
    using that
    by (auto simp: spectator_body_def bind_eq_Inr nth_err_def split: if_splits)
  from 1 2 show ?thesis by blast
qed


theorem spectator_mask_this_fragment_witness:
  "bind (spectator_mask hop_frag_alpha_out 2) (\<lambda>m. nd_get m [1, 1]) = Inr True
   \<and> bind (spectator_body const_solver [0 :: nat, 1] no_pairs 1 0 store0) (\<lambda>s. get_dm1 s 0 1)
       = Inr (Some (const_array [2, 1, 1] \<i>))
   \<and> bind (spectator_body const_solver [0 :: nat, 1] no_pairs 1 0 store0) (\<lambda>s. get_dm2 s 0 1)
       = Inr None"
  using spectator_mask_this_fragment [of hop_frag_alpha_out 2 1 1 const_solver "[0, 1]" no_pairs 1 0 store0]
  by (simp add: hop_frag_alpha_out_def np_array3_def spectator_body_def nth_err_def store0_def
      const_solver_def const_array_def set_dm1_def write2_def nd_get_def in_shape_def
      no_pairs_def get_dm1_def get_dm2_def read2_def)

section \<open>Properties of the store\<close>

text \<open>
  Claim C5, as stated, fails: \<open>set_h (0, 1, 0, x)\<close> and \<open>set_hh (0, 1, 2, x)\<close> store at
  bra 0 and ket 1, where bra is less than ket, and \<open>get_h\<close> and \<open>get_hh\<close> return the
  stored value from there.
\<close>

theorem store_claim_fails:
  "bind (set_h store0 0 1 0 (const_array [1] 1)) (\<lambda>s. get_h s 0 1 0)
     = Inr (Some (const_array [1] 1))
   \<and> bind (set_hh store0 0 1 2 (const_array [1, 1] 1)) (\<lambda>s. get_hh s 0 1 2)
     = Inr (Some (const_array [1, 1] 1))"
  by (simp add: store0_def const_array_def set_h_def get_h_def set_hh_def get_hh_def
      write3_def read3_def)

text \<open>
  Claim C5, amended. The two densities are stored only at positions \<open>bra \<ge> ket\<close>:
  \<open>set_dm1\<close> and \<open>set_dm2\<close> write the position \<open>(max i j, min i j)\<close> and no other,
  conjugating and transposing the value when \<open>i < j\<close>, and for \<open>i \<ge> j\<close> the getters
  return the stored entry. The setters of \<open>h\<close>, \<open>hh\<close>, \<open>phh\<close> and \<open>sm\<close> store at the
  position they are given, in either order; \<open>get_p\<close> and \<open>get_sp\<close> return the conjugate
  of the entry at the swapped position, \<open>get_pp\<close> its conjugate transpose, \<open>get_pph\<close> its
  conjugate with the last two axes exchanged. A getter is a function of the store: it
  computes nothing new and writes nothing.
\<close>

theorem store_accessors:
  "(j \<le> i \<longrightarrow> get_dm1 self i j = read2 (nroots self) (dm1 self) i j)
   \<and> (j \<le> i \<longrightarrow> get_dm2 self i j = read2 (nroots self) (dm2 self) i j)
   \<and> (\<forall>self'. set_dm1 self i j x = Inr self' \<longrightarrow>
        (if i < j then map_option Inr (dm1 self' j i) = Some (nd_transpose [0, 2, 1] (nd_conj x))
         else dm1 self' i j = Some x)
        \<and> (\<forall>a b. (a, b) \<noteq> (max i j, min i j) \<longrightarrow> dm1 self' a b = dm1 self a b))
   \<and> (\<forall>self'. set_dm2 self i j x = Inr self' \<longrightarrow>
        (if i < j then map_option Inr (dm2 self' j i) = Some (nd_transpose [0, 2, 1, 4, 3] (nd_conj x))
         else dm2 self' i j = Some x)
        \<and> (\<forall>a b. (a, b) \<noteq> (max i j, min i j) \<longrightarrow> dm2 self' a b = dm2 self a b))
   \<and> (\<forall>self'. set_h self i j s x = Inr self' \<longrightarrow> get_h self' i j s = Inr (Some x))
   \<and> (\<forall>self'. set_hh self i j s x = Inr self' \<longrightarrow> get_hh self' i j s = Inr (Some x))
   \<and> (\<forall>self'. set_phh self i j s x = Inr self' \<longrightarrow> get_phh self' i j s = Inr (Some x))
   \<and> (\<forall>self'. set_sm self i j x = Inr self' \<longrightarrow> get_sm self' i j = Inr (Some x))
   \<and> get_p self i j s = bind (get_h self j i s) (on_array ''conj'' (\<lambda>a. Inr (nd_conj a)))
   \<and> get_sp self i j = bind (get_sm self j i) (on_array ''conj'' (\<lambda>a. Inr (nd_conj a)))
   \<and> get_pp self i j s = bind (get_hh self j i s) (on_array ''conj'' (\<lambda>a. Inr (nd_T (nd_conj a))))
   \<and> get_pph self i j s
       = bind (get_phh self j i s) (on_array ''conj'' (\<lambda>a. nd_transpose [0, 2, 1] (nd_conj a)))"
  by (auto simp: get_dm1_def get_dm2_def set_dm1_def set_dm2_def Let_def bind_eq_Inr write2_def
      write3_def read2_def read3_def set_h_def set_hh_def set_phh_def set_sm_def get_h_def
      get_hh_def get_phh_def get_sm_def get_p_def get_sp_def get_pp_def get_pph_def
      split: if_splits)

theorem store_accessors_witness:
  "\<not> isl (set_dm1 store0 0 1 (const_array [2, 1, 1] \<i>))
   \<and> bind (set_dm1 store0 0 1 (const_array [2, 1, 1] \<i>)) (\<lambda>s.
       bind (get_dm1 s 1 0) (on_array ''item'' (\<lambda>a. nd_get a [0, 0, 0]))) = Inr (- \<i>)
   \<and> bind (set_h store0 0 1 0 (const_array [2, 1, 1] \<i>)) (\<lambda>s.
       bind (get_p s 1 0 0) (\<lambda>a. nd_get a [0, 0, 0])) = Inr (- \<i>)"
  using store_accessors [where self = store0 and i = 0 and j = 1 and s = 0
      and x = "const_array [2, 1, 1] \<i>"]
    store_accessors [where self = store0 and i = 1 and j = 0 and s = 0
      and x = "const_array [2, 1, 1] \<i>"]
  by (simp add: set_dm1_def get_dm1_def store0_def write2_def read2_def const_array_def
      nd_transpose_def nd_conj_def nd_map_def nd_get_def in_shape_def set_h_def get_h_def
      write3_def read3_def on_array_def get_p_def)

text \<open>
  For \<open>bra < ket\<close> the getters of the two densities return the entry stored at
  \<open>(ket, bra)\<close> as it is, without the conjugate transpose that the setters apply for that
  ordering and that \<open>get_p\<close>, \<open>get_pp\<close>, \<open>get_pph\<close> and \<open>get_sp\<close> apply on every read: a
  density set at \<open>(0, 1)\<close> with the entries \<open>\<i>\<close> is read back at \<open>(0, 1)\<close> with the
  entries \<open>- \<i>\<close>.
\<close>

lemma get_dm1_does_not_undo_set_dm1:
  "bind (set_dm1 store0 0 1 (const_array [2, 1, 1] \<i>)) (\<lambda>s.
     bind (get_dm1 s 0 1) (on_array ''item'' (\<lambda>a. nd_get a [0, 0, 0]))) = Inr (- \<i>)"
  by (simp add: set_dm1_def get_dm1_def store0_def write2_def read2_def const_array_def
      nd_transpose_def nd_conj_def nd_map_def nd_get_def in_shape_def on_array_def)

section \<open>Properties of the third pass\<close>

lemma bshape_same: "bshape xs xs = Some xs"
  by (induction xs) auto

lemma broadcast_same: "broadcast_shapes sh sh = Some sh"
  by (simp add: broadcast_shapes_def bshape_same)

text \<open>
  Line 423 alone does what the third pass is for: after it the one-body tensor is its own
  adjoint, \<open>tdm1s[k,b,s,q,p] = conj (tdm1s[b,k,s,p,q])\<close>.
\<close>

lemma adjoint_added_hermitian:
  assumes "shape t = [R, R, 2, n, n]"
  shows "\<exists>t'. bind (nd_transpose [1, 0, 2, 4, 3] (nd_conj t)) (nd_iadd t) = Inr t'
     \<and> shape t' = shape t
     \<and> (\<forall>b k s p q. b < R \<and> k < R \<and> s < 2 \<and> p < n \<and> q < n \<longrightarrow>
           nd_get t' [k, b, s, q, p] = map_sum id cnj (nd_get t' [b, k, s, p, q]))"
proof -
  have srt: "sort [1, 0, 2, 4, 3] = [0..<5::nat]"
    by (simp add: upt_conv_Cons)
  show ?thesis
    using assms
    by (auto simp: nd_transpose_def nd_conj_def nd_map_def nd_iadd_def nd_add_def broadcast_same srt pos_def
        bidx_def nd_get_def in_shape_def)
qed

text \<open>
  Line 424 transposes \<open>tdm1s\<close>, an array of five axes, with a permutation of seven:
  for any one-body tensor that does not have seven axes the third pass raises.
\<close>

lemma third_pass_fails:
  assumes "length (shape tdm1s) \<noteq> 7"
  shows "third_pass f tdm1s tdm2s = Inl ValueError"
proof (cases "nd_transpose [1, 0, 2, 4, 3] (nd_conj tdm1s)")
  case (Inl e)
  then show ?thesis by (auto simp: third_pass_def nd_transpose_def split: if_splits)
next
  case (Inr a1)
  show ?thesis
  proof (cases "nd_iadd tdm1s a1")
    case (Inl e)
    then show ?thesis using Inr
      by (auto simp: third_pass_def nd_iadd_def nd_add_def bind_eq_Inr split: if_splits option.splits)
  next
    case iadd: (Inr t')
    then have "shape t' = shape tdm1s"
      by (auto simp: nd_iadd_def bind_eq_Inr split: if_splits)
    then have "nd_transpose [1, 0, 2, 4, 3, 6, 5] (nd_conj t') = Inl ValueError"
      using assms by (auto simp: nd_transpose_def nd_conj_def nd_map_def dest!: arg_cong [where f = length])
    then show ?thesis using Inr iadd by (simp add: third_pass_def)
  qed
qed

text \<open>
  Claim C1 holds of no run of the code: on output tensors for two roots and one orbital,
  with the upper triangle assembled, the third pass raises \<open>ValueError\<close> on line 424,
  where the adjoint of the one-body tensor stands in place of the adjoint of the
  two-body tensor; the lower triangle of the two-body tensor is never filled.
\<close>

theorem third_pass_raises:
  "third_pass Inr tdm1s_upper tdm2s_upper = Inl ValueError"
  by (simp add: third_pass_def tdm1s_upper_def tdm2s_upper_def nd_transpose_def nd_conj_def nd_map_def
     nd_iadd_def nd_add_def broadcast_shapes_def)

section \<open>Properties of the single-hop rule\<close>

lemma sel_region_too_many:
  "length ds < length sels \<Longrightarrow> sel_region sels ds = None"
proof (induction sels ds rule: sel_region.induct)
qed auto

text \<open>
  Every write of \<open>_crunch_1e_tdm2\<close> is addressed to the one-body tensor, with five
  subscripts under \<open>bra, ket\<close>; on a tensor of fewer than seven axes the first of them
  raises \<open>IndexError\<close>.
\<close>

lemma crunch_1e_tdm2_one_body:
  assumes "length (shape tdm1s) < 7"
  shows "crunch_1e_tdm2 tdm1s bra ket s1 d2_ijkk i0 i1 j0 j1 k0 k1 = Inl IndexError"
  using assms
  by (simp add: crunch_1e_tdm2_def Let_def nd_setitem_def sel_region_too_many)

text \<open>A call of the rule that returns leaves the two-body tensor as it found it.\<close>

lemma crunch_1e_leaves_two_body:
  "crunch_1e ints nlas hop (t1, t2) bra ket s1 = Inr (t1', t2') \<Longrightarrow> t2' = t2"
  by (auto simp: crunch_1e_def bind_eq_Inr)

lemmas crunch_eval = crunch_1e_dm1_def nd_getitem_def hop_alpha_hop_def np_array4_def
  tdm1s_zero_def const_array_def entries_def upt_0_2 py_assert_def amax_def where_first_def
  where_rows_def nth_err_def store_hop_def store0_def get_p_def get_h_def read3_def
  on_array_def nd_conj_def nd_map_def outer_opt_def nd_outer_def nd_setitem_def
  broadcast_shapes_def bidx_def nd_get_def in_shape_def Let_def

text \<open>
  Claim C4 fails on the code. Two fragments of one orbital each, two roots, one \<open>\<alpha>\<close>
  electron hopping between the fragments, zero-filled output tensors, \<open>bra = 0\<close>,
  \<open>ket = 1\<close>, \<open>s1 = 0\<close>. Lines 279 to 291 find the fragments \<open>i = 1\<close>, \<open>j = 0\<close> and the
  offsets \<open>p, q, r, s = 1, 2, 0, 1\<close>, and write the outer product over the whole spin
  channel: the entry at orbitals \<open>(0, 0)\<close>, outside the block \<open>[1:2, 0:1]\<close>, is 1. A write
  of \<open>_crunch_1e_tdm2\<close> goes to the one-body tensor and raises \<open>IndexError\<close>. The rule as
  a whole raises (on line 301, before it reaches that write) and the two-body tensor is
  never written.
\<close>

theorem crunch_1e_one_body_only:
  "bind (crunch_1e_dm1 [store_hop, store_hop] [1, 1] hop_alpha_hop tdm1s_zero 0 1 0)
     (\<lambda>(t, fr). bind (nd_get t [0, 1, 0, 0, 0]) (\<lambda>x.
        Inr (x, frag_i fr, frag_j fr, off_p fr, off_q fr, off_r fr, off_s fr)))
     = Inr (1, 1, 0, 1, 2, 0, 1)
   \<and> crunch_1e_tdm2 tdm1s_zero 0 1 0 (const_array [2, 1, 1, 1, 1] 1) 1 2 0 1 1 2 = Inl IndexError
   \<and> crunch_1e [store_hop, store_hop] [1, 1] hop_alpha_hop (tdm1s_zero, tdm2s_zero) 0 1 0
     = Inl ValueError"
proof -
  have "crunch_1e_tdm2 tdm1s_zero 0 1 0 (const_array [2, 1, 1, 1, 1] 1) 1 2 0 1 1 2 = Inl IndexError"
    by (rule crunch_1e_tdm2_one_body) (simp add: tdm1s_zero_def const_array_def)
  moreover have
    "crunch_1e [store_hop, store_hop] [1, 1] hop_alpha_hop (tdm1s_zero, tdm2s_zero) 0 1 0
       = Inl ValueError"
    by (simp add: crunch_1e_def crunch_eval get_pph_def nd_transpose_def)
  moreover have
    "bind (crunch_1e_dm1 [store_hop, store_hop] [1, 1] hop_alpha_hop tdm1s_zero 0 1 0)
       (\<lambda>(t, fr). bind (nd_get t [0, 1, 0, 0, 0]) (\<lambda>x.
          Inr (x, frag_i fr, frag_j fr, off_p fr, off_q fr, off_r fr, off_s fr)))
       = Inr (1, 1, 0, 1, 2, 0, 1)"
    by (simp add: crunch_eval)
  ultimately show ?thesis by blast
qed

end
